theory Spec2Isabelle
  imports Complex_Main "HOL-Library.AList"
begin

section \<open>Timer utility (utils/Timer: class PreciseTimer)\<close>

text \<open>
  The timer singleton keeps a JavaScript \<open>Map\<close> from timer id to timer object. A
  \<open>Map\<close> keeps its keys in insertion order, so it is an association list with
  distinct keys. The callback closures that the controllers hand to \<open>Timer.start\<close>
  are named by a datatype; the high-resolution start and end times only feed
  \<open>getRemaining\<close> and are left out. Durations are whole milliseconds.
\<close>

datatype callback =
    OnTimerEnd string       \<comment> \<open>\<open>() => this._onTimerEnd(cameraId)\<close>, RecordingController\<close>
  | OnResetDone string      \<comment> \<open>the closure of \<open>_onReset\<close>, RecordingController\<close>
  | OnAlarmTimeout string   \<comment> \<open>\<open>() => this._onAlarmTimeout(cameraId)\<close>, AlarmController\<close>
  | OnCooldownEnd           \<comment> \<open>the closure of \<open>_enterCooldown\<close>, AlarmController\<close>

record timer =
  durationMs :: int
  callback :: callback

type_synonym timers = "(string \<times> timer) list"

definition Timer_stop :: "string \<Rightarrow> timers \<Rightarrow> bool \<times> timers" where
  "Timer_stop tid ts =
     (case map_of ts tid of
        Some t \<Rightarrow> (True, AList.delete tid ts)
      | None \<Rightarrow> (False, ts))"

definition Timer_start :: "string \<Rightarrow> int \<Rightarrow> callback \<Rightarrow> timers \<Rightarrow> timers" where
  "Timer_start tid d cb ts =
     snd (Timer_stop tid ts) @ [(tid, \<lparr>durationMs = d, callback = cb\<rparr>)]"

definition Timer_isActive :: "string \<Rightarrow> timers \<Rightarrow> bool" where
  "Timer_isActive tid ts = (map_of ts tid \<noteq> None)"

definition Timer_stopAll :: "timers \<Rightarrow> timers" where
  "Timer_stopAll ts = []"

section \<open>Shared types (shared/types.js)\<close>

datatype RecordingState = IDLE | RECORDING | LOCKED | SAVING | RESET

text \<open>
  A JavaScript \<open>Date\<close>, as far as the code looks at it: the instant (milliseconds since
  the epoch, what \<open>toISOString\<close> renders) and the local-time fields that the getters
  return. \<open>getMonth\<close> counts from 0.
\<close>

record date =
  epochMs :: int
  getFullYear :: nat
  getMonth :: nat
  getDate :: nat
  getHours :: nat
  getMinutes :: nat
  getSeconds :: nat

text \<open>\<open>String(n)\<close> for a natural number: its decimal digits.\<close>

fun string_of_nat :: "nat \<Rightarrow> string" where
  "string_of_nat n =
     (if n < 10 then [''0123456789'' ! n]
      else string_of_nat (n div 10) @ [''0123456789'' ! (n mod 10)])"

declare string_of_nat.simps [simp del]

definition padStart :: "nat \<Rightarrow> char \<Rightarrow> string \<Rightarrow> string" where
  "padStart w c s = replicate (w - length s) c @ s"

definition pad :: "nat \<Rightarrow> string" where
  "pad n = padStart 2 (CHR ''0'') (string_of_nat n)"

definition generateVideoFilename :: "string \<Rightarrow> date \<Rightarrow> string" where
  "generateVideoFilename cameraId ts =
     (let d = string_of_nat (getFullYear ts) @ ''-'' @ pad (getMonth ts + 1) @ ''-'' @
              pad (getDate ts);
          t = pad (getHours ts) @ ''-'' @ pad (getMinutes ts) @ ''-'' @ pad (getSeconds ts)
      in cameraId @ ''_'' @ d @ ''_'' @ t @ ''.mp4'')"

section \<open>Alarm controller (modules/AlarmController.js)\<close>

datatype AlarmState = ARMED | DISARMED | TRIGGERED | COOLDOWN

record alarm_config =
  durationSeconds :: int
  enabled :: bool
  volumeLevel :: int

record camera_alarm =
  isActive :: bool
  triggeredAt :: int

text \<open>
  The optional hardware interface is an object that may or may not carry an
  \<open>activate\<close> and a \<open>deactivate\<close> method. A call that throws is caught and logged
  by the controller, so the call itself is all the model records.
\<close>

record hardware =
  has_activate :: bool
  has_deactivate :: bool

datatype hw_call = Activate int | Deactivate

datatype alarm_event =
    alarmTriggered string
  | alarmStopped "string option"
  | alarmArmed
  | alarmDisarmed

record AlarmController =
  config :: alarm_config
  state :: AlarmState
  cameraAlarms :: "(string \<times> camera_alarm) list"
  hardwareInterface :: "hardware option"
  hw_calls :: "hw_call list"          \<comment> \<open>calls made on the hardware interface, oldest first\<close>
  emitted :: "alarm_event list"       \<comment> \<open>events emitted, oldest first\<close>

text \<open>The constructor: \<open>||\<close> replaces a missing or zero number by its default.\<close>

record alarm_options =
  opt_durationSeconds :: "int option"
  opt_enabled :: "bool option"
  opt_volumeLevel :: "int option"

definition or_default :: "int option \<Rightarrow> int \<Rightarrow> int" where
  "or_default v d = (case v of None \<Rightarrow> d | Some n \<Rightarrow> if n = 0 then d else n)"

definition AlarmController_new :: "alarm_options \<Rightarrow> AlarmController" where
  "AlarmController_new c =
     \<lparr>config = \<lparr>durationSeconds = or_default (opt_durationSeconds c) 10,
                enabled = (opt_enabled c \<noteq> Some False),
                volumeLevel = or_default (opt_volumeLevel c) 100\<rparr>,
      state = ARMED,
      cameraAlarms = [],
      hardwareInterface = None,
      hw_calls = [],
      emitted = []\<rparr>"

definition activateHardwareAlarm :: "AlarmController \<Rightarrow> AlarmController" where
  "activateHardwareAlarm ac =
     (case hardwareInterface ac of
        Some hw \<Rightarrow>
          if has_activate hw
          then ac\<lparr>hw_calls := hw_calls ac @ [Activate (volumeLevel (config ac))]\<rparr>
          else ac
      | None \<Rightarrow> ac)"

definition deactivateHardwareAlarm :: "AlarmController \<Rightarrow> AlarmController" where
  "deactivateHardwareAlarm ac =
     (case hardwareInterface ac of
        Some hw \<Rightarrow>
          if has_deactivate hw
          then ac\<lparr>hw_calls := hw_calls ac @ [Deactivate]\<rparr>
          else ac
      | None \<Rightarrow> ac)"

definition emit_alarm :: "alarm_event \<Rightarrow> AlarmController \<Rightarrow> AlarmController" where
  "emit_alarm e ac = ac\<lparr>emitted := emitted ac @ [e]\<rparr>"

definition camera_active :: "AlarmController \<Rightarrow> string \<Rightarrow> bool" where
  "camera_active ac cameraId =
     (case map_of (cameraAlarms ac) cameraId of
        Some a \<Rightarrow> isActive a
      | None \<Rightarrow> False)"

text \<open>
  \<open>trigger(cameraId)\<close>. The second argument is the value of \<open>new Date()\<close>. The
  timer singleton is passed in and returned beside the controller.
\<close>

definition trigger ::
  "string \<Rightarrow> int \<Rightarrow> timers \<times> AlarmController \<Rightarrow> bool \<times> timers \<times> AlarmController" where
  "trigger cameraId now tc =
     (let ts = fst tc; ac = snd tc in
      if state ac = DISARMED then (False, ts, ac)
      else if state ac = COOLDOWN then (False, ts, ac)
      else if camera_active ac cameraId then (False, ts, ac)
      else
        let ac1 = ac\<lparr>state := TRIGGERED\<rparr>;
            ac2 = ac1\<lparr>cameraAlarms :=
                    AList.update cameraId \<lparr>isActive = True, triggeredAt = now\<rparr>
                      (cameraAlarms ac1)\<rparr>;
            ac3 = activateHardwareAlarm ac2;
            ac4 = emit_alarm (alarmTriggered cameraId) ac3;
            ts1 = Timer_start (''alarm_'' @ cameraId)
                    (durationSeconds (config ac4) * 1000) (OnAlarmTimeout cameraId) ts
        in (True, ts1, ac4))"

definition mark_inactive ::
  "string \<Rightarrow> (string \<times> camera_alarm) list \<Rightarrow> (string \<times> camera_alarm) list" where
  "mark_inactive cameraId al =
     (case map_of al cameraId of
        Some a \<Rightarrow> AList.update cameraId (a\<lparr>isActive := False\<rparr>) al
      | None \<Rightarrow> al)"

definition any_active :: "AlarmController \<Rightarrow> bool" where
  "any_active ac = list_ex (\<lambda>p. isActive (snd p)) (cameraAlarms ac)"

definition enterCooldown :: "timers \<times> AlarmController \<Rightarrow> timers \<times> AlarmController" where
  "enterCooldown tc =
     (Timer_start ''alarm_cooldown'' 5000 OnCooldownEnd (fst tc),
      (snd tc)\<lparr>state := COOLDOWN\<rparr>)"

definition onAlarmTimeout ::
  "string \<Rightarrow> timers \<times> AlarmController \<Rightarrow> timers \<times> AlarmController" where
  "onAlarmTimeout cameraId tc =
     (let ts = fst tc; ac = snd tc;
          ac1 = ac\<lparr>cameraAlarms := mark_inactive cameraId (cameraAlarms ac)\<rparr>;
          tc2 = (if \<not> any_active ac1
                 then enterCooldown (ts, deactivateHardwareAlarm ac1)
                 else (ts, ac1))
      in (fst tc2, emit_alarm (alarmStopped (Some cameraId)) (snd tc2)))"

definition onCooldownEnd :: "AlarmController \<Rightarrow> AlarmController" where
  "onCooldownEnd ac = ac\<lparr>state := ARMED\<rparr>"

text \<open>
  \<open>stop(cameraId = null)\<close>: the test \<open>if (cameraId)\<close> is false for \<open>null\<close> and for
  the empty string, and both take the stop-everything branch.
\<close>

definition truthy :: "string option \<Rightarrow> bool" where
  "truthy c = (case c of None \<Rightarrow> False | Some s \<Rightarrow> s \<noteq> [])"

definition stop_one ::
  "string \<Rightarrow> timers \<times> AlarmController \<Rightarrow> timers \<times> AlarmController" where
  "stop_one cameraId tc =
     (snd (Timer_stop (''alarm_'' @ cameraId) (fst tc)),
      (snd tc)\<lparr>cameraAlarms := mark_inactive cameraId (cameraAlarms (snd tc))\<rparr>)"

definition stop_every :: "timers \<times> AlarmController \<Rightarrow> timers \<times> AlarmController" where
  "stop_every tc =
     (fold (\<lambda>p t. snd (Timer_stop (''alarm_'' @ fst p) t)) (cameraAlarms (snd tc)) (fst tc),
      (snd tc)\<lparr>cameraAlarms :=
         map (\<lambda>p. (fst p, (snd p)\<lparr>isActive := False\<rparr>)) (cameraAlarms (snd tc))\<rparr>)"

definition stop ::
  "string option \<Rightarrow> timers \<times> AlarmController \<Rightarrow> timers \<times> AlarmController" where
  "stop cameraId tc =
     (let tc1 = (case cameraId of
                   Some c \<Rightarrow> if truthy cameraId then stop_one c tc else stop_every tc
                 | None \<Rightarrow> stop_every tc);
          ac2 = deactivateHardwareAlarm (snd tc1);
          ac3 = ac2\<lparr>state := ARMED\<rparr>
      in (fst tc1, emit_alarm (alarmStopped cameraId) ac3))"

definition arm :: "AlarmController \<Rightarrow> AlarmController" where
  "arm ac = emit_alarm alarmArmed (ac\<lparr>state := ARMED\<rparr>)"

definition disarm :: "timers \<times> AlarmController \<Rightarrow> timers \<times> AlarmController" where
  "disarm tc =
     (let tc1 = stop None tc
      in (fst tc1, emit_alarm alarmDisarmed ((snd tc1)\<lparr>state := DISARMED\<rparr>)))"

text \<open>
  The operations that reach the alarm controller: the public methods and the firing of
  a pending timer. A timer fires only while it is in the timer map; firing removes it
  and runs its callback. Timers that belong to the recording controller are not the
  alarm controller's business and stay where they are.
\<close>

datatype alarm_op =
    Trigger string int
  | Stop "string option"
  | Arm
  | Disarm
  | Fire string

definition alarm_fire :: "string \<Rightarrow> timers \<times> AlarmController \<Rightarrow> timers \<times> AlarmController" where
  "alarm_fire tid tc =
     (case map_of (fst tc) tid of
        None \<Rightarrow> tc
      | Some t \<Rightarrow>
          (case callback t of
             OnAlarmTimeout cameraId \<Rightarrow> onAlarmTimeout cameraId (AList.delete tid (fst tc), snd tc)
           | OnCooldownEnd \<Rightarrow> (AList.delete tid (fst tc), onCooldownEnd (snd tc))
           | _ \<Rightarrow> tc))"

fun alarm_step :: "alarm_op \<Rightarrow> timers \<times> AlarmController \<Rightarrow> timers \<times> AlarmController" where
  "alarm_step (Trigger cameraId now) tc = snd (trigger cameraId now tc)"
| "alarm_step (Stop cameraId) tc = stop cameraId tc"
| "alarm_step Arm tc = (fst tc, arm (snd tc))"
| "alarm_step Disarm tc = disarm tc"
| "alarm_step (Fire tid) tc = alarm_fire tid tc"

definition alarm_run ::
  "alarm_op list \<Rightarrow> timers \<times> AlarmController \<Rightarrow> timers \<times> AlarmController" where
  "alarm_run ops tc = fold alarm_step ops tc"

section \<open>Storage manager (modules/StorageManager.js)\<close>

datatype StorageHealth = HEALTHY | WARNING | CRITICAL | ERROR

record recording_entry =
  rec_id :: string
  rec_cameraId :: string
  filename :: string
  timestamp :: int
  duration :: "int option"
  sizeBytes :: int
  downloaded :: bool

datatype fs_error = ENOENT | EACCES

datatype fs_op = Unlink string | WriteIndex "recording_entry list"

record filesystem =
  files :: "(string \<times> int) list"
  index_file :: "recording_entry list option"
  unlink_denied :: "string list"
  write_denied :: bool
  fs_log :: "fs_op list"

definition fs_stat :: "filesystem \<Rightarrow> string \<Rightarrow> fs_error + int" where
  "fs_stat d p = (case map_of (files d) p of None \<Rightarrow> Inl ENOENT | Some n \<Rightarrow> Inr n)"

definition fs_unlink :: "string \<Rightarrow> filesystem \<Rightarrow> (fs_error + unit) \<times> filesystem" where
  "fs_unlink p d =
     (if p \<in> set (unlink_denied d) then (Inl EACCES, d)
      else case map_of (files d) p of
             None \<Rightarrow> (Inl ENOENT, d)
           | Some n \<Rightarrow> (Inr (), d\<lparr>files := AList.delete p (files d),
                                   fs_log := fs_log d @ [Unlink p]\<rparr>))"

definition fs_writeIndex ::
  "recording_entry list \<Rightarrow> filesystem \<Rightarrow> (fs_error + unit) \<times> filesystem" where
  "fs_writeIndex recs d =
     (if write_denied d then (Inl EACCES, d)
      else (Inr (), d\<lparr>index_file := Some recs, fs_log := fs_log d @ [WriteIndex recs]\<rparr>))"

record storage_config =
  cfg_basePath :: string
  maxUsagePercent :: rat
  autoCleanup :: bool
  indexFile :: string

record storage_stats =
  totalBytes :: int
  usedBytes :: int
  freeBytes :: int
  usagePercent :: rat
  health :: StorageHealth

datatype storage_event =
    storageWarning rat
  | storageCritical rat
  | cleanupComplete nat
  | recordingAdded recording_entry
  | recordingDeleted string

record StorageManager =
  sm_config :: storage_config
  basePath :: string
  indexPath :: string
  recordings :: "recording_entry list"
  stats :: storage_stats
  disk :: filesystem
  splice_log :: "(recording_entry \<times> recording_entry list) list"
  sm_emitted :: "storage_event list"

definition path_join :: "string \<Rightarrow> string \<Rightarrow> string" where
  "path_join a b = a @ ''/'' @ b"

definition emit_storage :: "storage_event \<Rightarrow> StorageManager \<Rightarrow> StorageManager" where
  "emit_storage e sm = sm\<lparr>sm_emitted := sm_emitted sm @ [e]\<rparr>"

definition saveIndex :: "StorageManager \<Rightarrow> (fs_error + unit) \<times> StorageManager" where
  "saveIndex sm =
     (case fs_writeIndex (recordings sm) (disk sm) of
        (r, d) \<Rightarrow> (r, sm\<lparr>disk := d\<rparr>))"

definition calculateHealth :: "rat \<Rightarrow> StorageHealth" where
  "calculateHealth u = (if u \<ge> 90 then CRITICAL else if u \<ge> 70 then WARNING else HEALTHY)"

definition stat_or_zero :: "StorageManager \<Rightarrow> recording_entry \<Rightarrow> int" where
  "stat_or_zero sm r =
     (case fs_stat (disk sm) (path_join (basePath sm) (filename r)) of
        Inr n \<Rightarrow> n
      | Inl e \<Rightarrow> 0)"

definition measure_stats :: "StorageManager \<Rightarrow> storage_stats" where
  "measure_stats sm =
     (let used = sum_list (map (stat_or_zero sm) (recordings sm));
          total = 32 * 1024 * 1024 * 1024;
          free = total - used;
          percent = (of_int used / of_int total) * 100
      in \<lparr>totalBytes = total, usedBytes = used, freeBytes = free,
          usagePercent = percent, health = calculateHealth percent\<rparr>)"

definition splice_first :: "string \<Rightarrow> StorageManager \<Rightarrow> StorageManager" where
  "splice_first fname sm =
     (case find (\<lambda>r. filename r = fname) (recordings sm) of
        None \<Rightarrow> sm
      | Some e \<Rightarrow> sm\<lparr>recordings := remove1 e (recordings sm),
                     splice_log := splice_log sm @ [(e, recordings sm)]\<rparr>)"

definition unlink_and_splice :: "string \<Rightarrow> StorageManager \<Rightarrow> (fs_error + unit) \<times> StorageManager" where
  "unlink_and_splice fname sm =
     (case fs_unlink (path_join (basePath sm) fname) (disk sm) of
        (Inl e, d) \<Rightarrow> if e \<noteq> ENOENT then (Inl e, sm) else (Inr (), splice_first fname sm)
      | (Inr u, d) \<Rightarrow> (Inr (), splice_first fname (sm\<lparr>disk := d\<rparr>)))"

definition deleteRecording_noindex :: "string \<Rightarrow> StorageManager \<Rightarrow> (fs_error + unit) \<times> StorageManager" where
  "deleteRecording_noindex fname sm =
     (case unlink_and_splice fname sm of
        (Inl e, sm1) \<Rightarrow> (Inl e, sm1)
      | (Inr u, sm1) \<Rightarrow> (Inr (), emit_storage (recordingDeleted fname) sm1))"

function updateStorageStats :: "StorageManager \<Rightarrow> StorageManager"
  and performCleanup :: "StorageManager \<Rightarrow> StorageManager"
  and cleanupLoop :: "rat \<Rightarrow> recording_entry list \<Rightarrow> nat \<Rightarrow> StorageManager \<Rightarrow> StorageManager \<times> nat"
where
  "updateStorageStats sm =
     (let st = measure_stats sm;
          sm1 = sm\<lparr>stats := st\<rparr>;
          sm2 = (if autoCleanup (sm_config sm1) \<and> usagePercent st \<ge> maxUsagePercent (sm_config sm1)
                 then performCleanup sm1 else sm1)
      in if health (stats sm2) = WARNING then emit_storage (storageWarning (usagePercent st)) sm2
         else if health (stats sm2) = CRITICAL then emit_storage (storageCritical (usagePercent st)) sm2
         else sm2)"
| "performCleanup sm =
     (let sorted = sort_key timestamp (recordings sm);
          targetUsage = maxUsagePercent (sm_config sm) - 10;
          r = cleanupLoop targetUsage sorted 0 sm
      in emit_storage (cleanupComplete (snd r)) (fst r))"
| "cleanupLoop targetUsage [] deletedCount sm = (sm, deletedCount)"
| "cleanupLoop targetUsage (oldest # rest) deletedCount sm =
     (if usagePercent (stats sm) > targetUsage
      then (case deleteRecording_noindex (filename oldest) sm of
              (Inl e, sm1) \<Rightarrow> cleanupLoop targetUsage rest deletedCount sm1
            | (Inr u, sm1) \<Rightarrow> cleanupLoop targetUsage rest (deletedCount + 1) (updateStorageStats sm1))
      else (sm, deletedCount))"
  by pat_completeness auto


lemma recordings_emit_storage [simp]: "recordings (emit_storage e sm) = recordings sm"
  by (simp add: emit_storage_def)

lemma length_splice_first:
  "length (recordings (splice_first f sm)) =
     (if f \<in> filename ` set (recordings sm) then length (recordings sm) - 1
      else length (recordings sm))"
proof (cases "find (\<lambda>r. filename r = f) (recordings sm)")
  case None
  then have "f \<notin> filename ` set (recordings sm)"
    by (auto simp: find_None_iff)
  then show ?thesis using None by (simp add: splice_first_def)
next
  case (Some e)
  then have "e \<in> set (recordings sm)" "filename e = f"
    by (auto simp: find_Some_iff)
  then show ?thesis using Some
    by (auto simp: splice_first_def length_remove1)
qed

lemma deleteRecording_noindex_Inl:
  "deleteRecording_noindex f sm = (Inl e, sm1) \<Longrightarrow> sm1 = sm"
  by (auto simp: deleteRecording_noindex_def unlink_and_splice_def split: prod.splits sum.splits if_splits)

lemma deleteRecording_noindex_length:
  "deleteRecording_noindex f sm = (Inr u, sm1) \<Longrightarrow>
   length (recordings sm1) =
     (if f \<in> filename ` set (recordings sm) then length (recordings sm) - 1
      else length (recordings sm))"
  by (auto simp: deleteRecording_noindex_def unlink_and_splice_def length_splice_first
           split: prod.splits sum.splits if_splits)

lemma cleanup_length_partial:
  shows "updateStorageStats_performCleanup_cleanupLoop_dom (Inl sm) \<Longrightarrow>
           length (recordings (updateStorageStats sm)) \<le> length (recordings sm)"
    and "updateStorageStats_performCleanup_cleanupLoop_dom (Inr (Inl sm')) \<Longrightarrow>
           length (recordings (performCleanup sm')) \<le> length (recordings sm')"
    and "updateStorageStats_performCleanup_cleanupLoop_dom (Inr (Inr (t, srt, n, sm''))) \<Longrightarrow>
           length (recordings (fst (cleanupLoop t srt n sm''))) \<le> length (recordings sm'')"
proof (induct rule: updateStorageStats_performCleanup_cleanupLoop.pinduct)
  case (1 sm)
  then show ?case
    by (auto simp: updateStorageStats.psimps Let_def)
next
  case (2 sm)
  then show ?case
    by (auto simp: performCleanup.psimps Let_def)
next
  case (3 targetUsage deletedCount sm)
  then show ?case by (simp add: cleanupLoop.psimps)
next
  case (4 targetUsage oldest rest deletedCount sm)
  show ?case
  proof (cases "usagePercent (stats sm) > targetUsage")
    case False
    then show ?thesis using 4(1) by (simp add: cleanupLoop.psimps)
  next
    case True
    obtain x y where xy: "deleteRecording_noindex (filename oldest) sm = (x, y)"
      by (cases "deleteRecording_noindex (filename oldest) sm")
    show ?thesis
    proof (cases x)
      case (Inl a)
      then have "y = sm" using xy deleteRecording_noindex_Inl by blast
      then show ?thesis using 4(1) 4(2)[OF True xy[symmetric] Inl] True xy Inl
        by (simp add: cleanupLoop.psimps)
    next
      case (Inr b)
      have l: "length (recordings y) \<le> length (recordings sm)"
        using deleteRecording_noindex_length[of "filename oldest" sm b y] xy Inr by (auto split: if_splits)
      show ?thesis using 4(1) 4(3)[OF True xy[symmetric] Inr] 4(4)[OF True xy[symmetric] Inr] True xy Inr l
        by (simp add: cleanupLoop.psimps)
    qed
  qed
qed

definition all_fresh :: "recording_entry list \<Rightarrow> StorageManager \<Rightarrow> bool" where
  "all_fresh srt sm = (\<forall>e \<in> set srt. filename e \<in> filename ` set (recordings sm))"

definition cleanup_measure ::
  "StorageManager + StorageManager + rat \<times> recording_entry list \<times> nat \<times> StorageManager
   \<Rightarrow> nat \<times> nat \<times> nat" where
  "cleanup_measure x =
     (case x of
        Inl sm \<Rightarrow> (length (recordings sm), 2, 0)
      | Inr (Inl sm) \<Rightarrow> (length (recordings sm), 1, 0)
      | Inr (Inr (t, srt, n, sm)) \<Rightarrow>
          (length (recordings sm), if all_fresh srt sm then 0 else 3, length srt))"

termination updateStorageStats
proof (relation "inv_image (less_than <*lex*> less_than <*lex*> less_than) cleanup_measure")
  show "wf (inv_image (less_than <*lex*> less_than <*lex*> less_than) cleanup_measure)"
    by (intro wf_inv_image wf_lex_prod wf_less_than)
next
  fix sm :: StorageManager and x xa
  assume "x = measure_stats sm" "xa = sm\<lparr>stats := x\<rparr>"
  then show "(Inr (Inl xa), Inl sm) \<in> inv_image (less_than <*lex*> less_than <*lex*> less_than) cleanup_measure"
    by (simp add: cleanup_measure_def)
next
  fix sm :: StorageManager and x and xa :: rat
  assume "x = sort_key timestamp (recordings sm)"
  then show "(Inr (Inr (xa, x, 0, sm)), Inr (Inl sm)) \<in> inv_image (less_than <*lex*> less_than <*lex*> less_than) cleanup_measure"
    by (simp add: cleanup_measure_def all_fresh_def)
next
  fix targetUsage :: rat and oldest :: recording_entry and rest and deletedCount :: nat and sm :: StorageManager and x y a
  assume "(x, y) = deleteRecording_noindex (filename oldest) sm" "x = Inl a"
  then have "y = sm" using deleteRecording_noindex_Inl[of "filename oldest" sm a y] by simp
  then show "(Inr (Inr (targetUsage, rest, deletedCount, y)), Inr (Inr (targetUsage, oldest # rest, deletedCount, sm)))
      \<in> inv_image (less_than <*lex*> less_than <*lex*> less_than) cleanup_measure"
    by (auto simp: cleanup_measure_def all_fresh_def)
next
  fix targetUsage :: rat and oldest :: recording_entry and rest and deletedCount :: nat and sm :: StorageManager and x y b
  assume a: "(x, y) = deleteRecording_noindex (filename oldest) sm" "x = Inr b"
  have l: "length (recordings y) =
     (if filename oldest \<in> filename ` set (recordings sm) then length (recordings sm) - 1
      else length (recordings sm))"
    using deleteRecording_noindex_length[of "filename oldest" sm b y] a by simp
  show "(Inl y, Inr (Inr (targetUsage, oldest # rest, deletedCount, sm)))
      \<in> inv_image (less_than <*lex*> less_than <*lex*> less_than) cleanup_measure"
  proof (cases "filename oldest \<in> filename ` set (recordings sm)")
    case True
    then have pos: "0 < length (recordings sm)" by auto
    have "length (recordings y) = length (recordings sm) - 1" using l True by simp
    with pos have "length (recordings y) < length (recordings sm)" by linarith
    then show ?thesis by (simp add: cleanup_measure_def)
  next
    case False
    then show ?thesis using l by (auto simp: cleanup_measure_def all_fresh_def)
  qed
  assume d: "updateStorageStats_performCleanup_cleanupLoop_dom (Inl y)"
  have l2: "length (recordings (updateStorageStats y)) \<le> length (recordings y)"
    using cleanup_length_partial(1)[OF d] .
  show "(Inr (Inr (targetUsage, rest, deletedCount + 1, updateStorageStats y)),
         Inr (Inr (targetUsage, oldest # rest, deletedCount, sm)))
      \<in> inv_image (less_than <*lex*> less_than <*lex*> less_than) cleanup_measure"
  proof (cases "filename oldest \<in> filename ` set (recordings sm)")
    case True
    then have pos: "0 < length (recordings sm)" by auto
    have "length (recordings y) = length (recordings sm) - 1" using l True by simp
    with pos l2 have "length (recordings (updateStorageStats y)) < length (recordings sm)"
      by linarith
    then show ?thesis by (simp add: cleanup_measure_def)
  next
    case False
    then show ?thesis using l l2 by (auto simp: cleanup_measure_def all_fresh_def)
  qed
qed



record recording_request =
  req_cameraId :: string
  req_filename :: string
  req_timestamp :: int
  req_duration :: "int option"

definition addRecording ::
  "string \<Rightarrow> recording_request \<Rightarrow> StorageManager \<Rightarrow> (fs_error + recording_entry) \<times> StorageManager" where
  "addRecording rid r sm =
     (let entry0 = \<lparr>rec_id = rid, rec_cameraId = req_cameraId r, filename = req_filename r,
                    timestamp = req_timestamp r, duration = req_duration r,
                    sizeBytes = 0, downloaded = False\<rparr>;
          entry = (case fs_stat (disk sm) (path_join (basePath sm) (req_filename r)) of
                     Inr n \<Rightarrow> entry0\<lparr>sizeBytes := n\<rparr>
                   | Inl e \<Rightarrow> entry0);
          sm1 = sm\<lparr>recordings := recordings sm @ [entry]\<rparr>
      in case saveIndex sm1 of
           (Inl e, sm2) \<Rightarrow> (Inl e, sm2)
         | (Inr u, sm2) \<Rightarrow>
             (Inr entry, emit_storage (recordingAdded entry) (updateStorageStats sm2)))"

definition refresh :: "StorageManager \<Rightarrow> StorageManager" where
  "refresh sm = updateStorageStats sm"


section \<open>Recording controller (class RecordingController)\<close>

record camera_state =
  rec_state :: RecordingState        \<comment> \<open>the field \<open>state\<close> of the source\<close>
  currentFile :: "string option"
  startTime :: "date option"
  rtspUrl :: "string option"

text \<open>
  An entry of \<open>activeProcesses\<close>: the \<open>{simulated: true}\<close> marker, or an ffmpeg
  command with its input URL, output path and the \<open>-t\<close> argument. What the controller
  does to capture processes (run, kill) is kept in \<open>process_log\<close>.
\<close>

datatype process = Simulated | FFmpeg string string "int option"

datatype process_action = Run string process | Kill string

datatype recording_event =
    recordingStarted string string
  | recordingComplete string "string option"
  | recordingError string string
  | recordingReady string

record recording_options =
  rc_durationSeconds :: "int option"
  rc_resetDelaySeconds :: "int option"

text \<open>
  \<open>_saveRecording\<close> is \<open>async\<close>: it evaluates the arguments of \<open>addRecording\<close>, then
  waits for it, and only afterwards moves the camera to RESET. Between the two halves
  other callbacks run. The suspended half is an entry of \<open>pendingSaves\<close>: the camera and
  the request as it was evaluated before the wait.
\<close>

record RecordingController =
  rc_config :: recording_options
  cameraStates :: "(string \<times> camera_state) list"
  activeProcesses :: "(string \<times> process) list"
  recordingDurationMs :: int
  resetDelayMs :: int
  pendingSaves :: "(string \<times> recording_request) list"
  process_log :: "process_action list"
  rc_emitted :: "recording_event list"

definition RecordingController_new :: "recording_options \<Rightarrow> RecordingController" where
  "RecordingController_new c =
     \<lparr>rc_config = c,
      cameraStates = [],
      activeProcesses = [],
      recordingDurationMs = or_default (rc_durationSeconds c) 60 * 1000,
      resetDelayMs = or_default (rc_resetDelaySeconds c) 3 * 1000,
      pendingSaves = [],
      process_log = [],
      rc_emitted = []\<rparr>"

definition new_camera_state :: camera_state where
  "new_camera_state =
     \<lparr>rec_state = IDLE, currentFile = None, startTime = None, rtspUrl = None\<rparr>"

text \<open>
  \<open>getCameraState\<close> creates the entry on first use and returns the object, which the
  caller then mutates. \<open>ensure_camera\<close> is the creation, \<open>camera\<close> the lookup and
  \<open>set_camera\<close> the write-back of the mutated object.
\<close>

definition ensure_camera :: "string \<Rightarrow> RecordingController \<Rightarrow> RecordingController" where
  "ensure_camera cameraId rc =
     (case map_of (cameraStates rc) cameraId of
        Some cs \<Rightarrow> rc
      | None \<Rightarrow> rc\<lparr>cameraStates := AList.update cameraId new_camera_state (cameraStates rc)\<rparr>)"

definition camera :: "RecordingController \<Rightarrow> string \<Rightarrow> camera_state" where
  "camera rc cameraId =
     (case map_of (cameraStates rc) cameraId of
        Some cs \<Rightarrow> cs
      | None \<Rightarrow> new_camera_state)"

definition set_camera ::
  "string \<Rightarrow> camera_state \<Rightarrow> RecordingController \<Rightarrow> RecordingController" where
  "set_camera cameraId cs rc =
     rc\<lparr>cameraStates := AList.update cameraId cs (cameraStates rc)\<rparr>"

definition emit_recording :: "recording_event \<Rightarrow> RecordingController \<Rightarrow> RecordingController" where
  "emit_recording e rc = rc\<lparr>rc_emitted := rc_emitted rc @ [e]\<rparr>"

definition or_else :: "string option \<Rightarrow> string option \<Rightarrow> string option" where
  "or_else a b = (if truthy a then a else b)"

definition startFFmpegRecording ::
  "string \<Rightarrow> string option \<Rightarrow> string \<Rightarrow> RecordingController \<Rightarrow> RecordingController" where
  "startFFmpegRecording cameraId url outputPath rc =
     (case url of
        None \<Rightarrow> rc\<lparr>activeProcesses := AList.update cameraId Simulated (activeProcesses rc)\<rparr>
      | Some u \<Rightarrow>
          if u = [] then
            rc\<lparr>activeProcesses := AList.update cameraId Simulated (activeProcesses rc)\<rparr>
          else
            let p = FFmpeg u outputPath (rc_durationSeconds (rc_config rc))
            in rc\<lparr>process_log := process_log rc @ [Run cameraId p],
                  activeProcesses := AList.update cameraId p (activeProcesses rc)\<rparr>)"

text \<open>
  \<open>startRecording(cameraId, rtspUrl = null)\<close>. \<open>now\<close> is the value of \<open>new Date()\<close>;
  the storage manager is only asked for its base path.
\<close>

definition startRecording ::
  "string \<Rightarrow> string option \<Rightarrow> date \<Rightarrow> StorageManager \<Rightarrow> timers \<times> RecordingController
   \<Rightarrow> bool \<times> timers \<times> RecordingController" where
  "startRecording cameraId url now sm tr =
     (let ts = fst tr; rc0 = ensure_camera cameraId (snd tr); cs = camera rc0 cameraId in
      if rec_state cs \<noteq> IDLE then (False, ts, rc0)
      else
        let file = generateVideoFilename cameraId now;
            cs1 = cs\<lparr>rec_state := RECORDING, startTime := Some now,
                     currentFile := Some file, rtspUrl := or_else url (rtspUrl cs)\<rparr>;
            rc1 = set_camera cameraId cs1 rc0;
            outputPath = path_join (basePath sm) file;
            rc2 = startFFmpegRecording cameraId (rtspUrl cs1) outputPath rc1;
            ts1 = Timer_start (''recording_'' @ cameraId) (recordingDurationMs rc2)
                    (OnTimerEnd cameraId) ts;
            rc3 = emit_recording (recordingStarted cameraId file) rc2
        in (True, ts1, rc3))"

definition stopFFmpegRecording :: "string \<Rightarrow> RecordingController \<Rightarrow> RecordingController" where
  "stopFFmpegRecording cameraId rc =
     (let rc1 = (case map_of (activeProcesses rc) cameraId of
                   Some (FFmpeg u out d) \<Rightarrow> rc\<lparr>process_log := process_log rc @ [Kill cameraId]\<rparr>
                 | Some Simulated \<Rightarrow> rc
                 | None \<Rightarrow> rc)
      in rc1\<lparr>activeProcesses := AList.delete cameraId (activeProcesses rc1)\<rparr>)"

definition onReset ::
  "string \<Rightarrow> timers \<times> RecordingController \<Rightarrow> timers \<times> RecordingController" where
  "onReset cameraId tr =
     (let rc0 = ensure_camera cameraId (snd tr)
      in (Timer_start (''reset_'' @ cameraId) (resetDelayMs rc0) (OnResetDone cameraId) (fst tr),
          rc0))"

text \<open>The callback that \<open>_onReset\<close> hands to the timer.\<close>

definition onResetDone :: "string \<Rightarrow> RecordingController \<Rightarrow> RecordingController" where
  "onResetDone cameraId rc =
     (let cs = camera rc cameraId;
          rc1 = set_camera cameraId
                  (cs\<lparr>rec_state := IDLE, currentFile := None, startTime := None\<rparr>) rc
      in emit_recording (recordingReady cameraId) rc1)"

text \<open>
  The first half of \<open>_saveRecording\<close>, up to the \<open>await\<close>. With \<open>startTime\<close> null,
  \<open>startTime.toISOString()\<close> throws inside the \<open>try\<close>; the \<open>catch\<close> logs it, and the
  function goes on to RESET without having called \<open>addRecording\<close>. A null
  \<open>currentFile\<close> would reach \<open>addRecording\<close> as it is; the model passes the empty name.
\<close>

definition saveRecording_begin ::
  "string \<Rightarrow> timers \<times> RecordingController \<Rightarrow> timers \<times> RecordingController" where
  "saveRecording_begin cameraId tr =
     (let rc0 = ensure_camera cameraId (snd tr); cs = camera rc0 cameraId in
      case startTime cs of
        None \<Rightarrow> onReset cameraId (fst tr, set_camera cameraId (cs\<lparr>rec_state := RESET\<rparr>) rc0)
      | Some t \<Rightarrow>
          (fst tr,
           rc0\<lparr>pendingSaves := pendingSaves rc0 @
                  [(cameraId,
                    \<lparr>req_cameraId = cameraId,
                     req_filename = (case currentFile cs of Some f \<Rightarrow> f | None \<Rightarrow> []),
                     req_timestamp = epochMs t,
                     req_duration = rc_durationSeconds (rc_config rc0)\<rparr>)]\<rparr>))"

definition onTimerEnd ::
  "string \<Rightarrow> timers \<times> RecordingController \<Rightarrow> timers \<times> RecordingController" where
  "onTimerEnd cameraId tr =
     (let rc0 = ensure_camera cameraId (snd tr); cs = camera rc0 cameraId in
      if rec_state cs \<noteq> RECORDING then (fst tr, rc0)
      else
        let rc1 = stopFFmpegRecording cameraId rc0;
            rc2 = set_camera cameraId (cs\<lparr>rec_state := SAVING\<rparr>) rc1
        in saveRecording_begin cameraId (fst tr, rc2))"

text \<open>
  The second half of \<open>_saveRecording\<close>: \<open>addRecording\<close> has finished (\<open>rid\<close> is the
  identifier it drew), with or without an error; then RESET, unconditionally.
\<close>

definition saveRecording_resume ::
  "string \<Rightarrow> string \<Rightarrow> timers \<times> RecordingController \<times> StorageManager
   \<Rightarrow> timers \<times> RecordingController \<times> StorageManager" where
  "saveRecording_resume cameraId rid s =
     (let ts = fst s; rc = fst (snd s); sm = snd (snd s) in
      case map_of (pendingSaves rc) cameraId of
        None \<Rightarrow> s
      | Some req \<Rightarrow>
          let rc0 = rc\<lparr>pendingSaves := remove1 (cameraId, req) (pendingSaves rc)\<rparr>;
              added = addRecording rid req sm;
              rc1 = (case fst added of
                       Inr entry \<Rightarrow>
                         emit_recording
                           (recordingComplete cameraId (currentFile (camera rc0 cameraId))) rc0
                     | Inl err \<Rightarrow> rc0);
              rc2 = set_camera cameraId ((camera rc1 cameraId)\<lparr>rec_state := RESET\<rparr>) rc1;
              tr = onReset cameraId (ts, rc2)
          in (fst tr, snd tr, snd added))"

definition handleRecordingError ::
  "string \<Rightarrow> string \<Rightarrow> timers \<times> RecordingController \<Rightarrow> timers \<times> RecordingController" where
  "handleRecordingError cameraId err tr =
     (let rc0 = ensure_camera cameraId (snd tr); cs = camera rc0 cameraId;
          ts1 = snd (Timer_stop (''recording_'' @ cameraId) (fst tr));
          rc1 = rc0\<lparr>activeProcesses := AList.delete cameraId (activeProcesses rc0)\<rparr>;
          rc2 = set_camera cameraId (cs\<lparr>rec_state := RESET\<rparr>) rc1;
          tr3 = onReset cameraId (ts1, rc2)
      in (fst tr3, emit_recording (recordingError cameraId err) (snd tr3)))"

definition forceStop ::
  "string \<Rightarrow> timers \<times> RecordingController \<Rightarrow> timers \<times> RecordingController" where
  "forceStop cameraId tr =
     (let rc0 = ensure_camera cameraId (snd tr); cs = camera rc0 cameraId;
          ts1 = snd (Timer_stop (''recording_'' @ cameraId) (fst tr));
          ts2 = snd (Timer_stop (''reset_'' @ cameraId) ts1);
          rc1 = stopFFmpegRecording cameraId rc0;
          rc2 = set_camera cameraId
                  (cs\<lparr>rec_state := IDLE, currentFile := None, startTime := None\<rparr>) rc1
      in (ts2, rc2))"

definition registerCamera :: "string \<Rightarrow> string option \<Rightarrow> RecordingController \<Rightarrow> RecordingController" where
  "registerCamera cameraId url rc =
     (let rc0 = ensure_camera cameraId rc
      in set_camera cameraId ((camera rc0 cameraId)\<lparr>rtspUrl := url\<rparr>) rc0)"

text \<open>
  What can happen to the recording controller: a call of \<open>startRecording\<close>, the firing of
  a pending timer (which removes it and runs its callback), the completion of a pending
  save, an \<open>error\<close> event of the capture process, and \<open>forceStop\<close>. The state is the
  timer map, the controller and the storage manager.
\<close>

datatype rec_op =
    Start string "string option" date
  | FireTimer string
  | SaveDone string string
  | CaptureError string string
  | ForceStop string

type_synonym rec_world = "timers \<times> RecordingController \<times> StorageManager"

definition rec_fire :: "string \<Rightarrow> timers \<times> RecordingController \<Rightarrow> timers \<times> RecordingController" where
  "rec_fire tid tr =
     (case map_of (fst tr) tid of
        None \<Rightarrow> tr
      | Some t \<Rightarrow>
          (case callback t of
             OnTimerEnd cameraId \<Rightarrow> onTimerEnd cameraId (AList.delete tid (fst tr), snd tr)
           | OnResetDone cameraId \<Rightarrow> (AList.delete tid (fst tr), onResetDone cameraId (snd tr))
           | _ \<Rightarrow> tr))"

definition lift_rec ::
  "(timers \<times> RecordingController \<Rightarrow> timers \<times> RecordingController) \<Rightarrow> rec_world \<Rightarrow> rec_world" where
  "lift_rec f s = (let tr = f (fst s, fst (snd s)) in (fst tr, snd tr, snd (snd s)))"

fun rec_step :: "rec_op \<Rightarrow> rec_world \<Rightarrow> rec_world" where
  "rec_step (Start cameraId url now) s =
     lift_rec (\<lambda>tr. snd (startRecording cameraId url now (snd (snd s)) tr)) s"
| "rec_step (FireTimer tid) s = lift_rec (rec_fire tid) s"
| "rec_step (SaveDone cameraId rid) s = saveRecording_resume cameraId rid s"
| "rec_step (CaptureError cameraId err) s = lift_rec (handleRecordingError cameraId err) s"
| "rec_step (ForceStop cameraId) s = lift_rec (forceStop cameraId) s"

definition rec_run :: "rec_op list \<Rightarrow> rec_world \<Rightarrow> rec_world" where
  "rec_run ops s = fold rec_step ops s"

definition phase :: "rec_world \<Rightarrow> string \<Rightarrow> RecordingState" where
  "phase s cameraId = rec_state (camera (fst (snd s)) cameraId)"

section \<open>Motion detector (modules/MotionDetector.js)\<close>

datatype MotionEventType = MOTION_START | MOTION_END | FALSE_POSITIVE

datatype sensitivity = low | medium | high

text \<open>
  Levels and percentages are exact rationals here; the source computes with doubles, which
  agree on the values used below (15, 1.0, 50, 10, 5). Times are whole milliseconds.
\<close>

record motion_config =
  threshold :: rat
  minDurationMs :: int
  minPixelChangePercent :: rat
  ignoreShadows :: bool
  ignoreLightingChanges :: bool
  sensitivityLevel :: sensitivity

record motion_options =
  opt_threshold :: "rat option"
  opt_minDurationMs :: "int option"
  opt_minPixelChangePercent :: "rat option"
  opt_ignoreShadows :: "bool option"
  opt_ignoreLightingChanges :: "bool option"
  opt_sensitivityLevel :: "sensitivity option"

record detector_camera =
  cam_id :: string
  cam_rtspUrl :: "string option"
  cam_enabled :: bool
  lastFrameTime :: "int option"

record motion_state =
  isMotionActive :: bool
  motionStartTime :: "int option"
  lastMotionLevel :: rat
  consecutiveFrames :: nat

record motion_event =
  ev_type :: MotionEventType
  ev_timestamp :: int
  ev_duration :: "int option"
  ev_level :: "rat option"

record frame_data =
  pixelChangePercent :: rat
  motionLevel :: rat
  hasShadow :: bool
  hasLightingChange :: bool

record MotionDetector =
  md_config :: motion_config
  cameras :: "(string \<times> detector_camera) list"
  motionState :: "(string \<times> motion_state) list"

definition or_default_rat :: "rat option \<Rightarrow> rat \<Rightarrow> rat" where
  "or_default_rat v d = (case v of None \<Rightarrow> d | Some n \<Rightarrow> if n = 0 then d else n)"

definition MotionDetector_new :: "motion_options \<Rightarrow> MotionDetector" where
  "MotionDetector_new c =
     \<lparr>md_config =
        \<lparr>threshold = or_default_rat (opt_threshold c) 15,
         minDurationMs = or_default (opt_minDurationMs c) 300,
         minPixelChangePercent = or_default_rat (opt_minPixelChangePercent c) 5,
         ignoreShadows = (opt_ignoreShadows c \<noteq> Some False),
         ignoreLightingChanges = (opt_ignoreLightingChanges c \<noteq> Some False),
         sensitivityLevel = (case opt_sensitivityLevel c of None \<Rightarrow> medium | Some l \<Rightarrow> l)\<rparr>,
      cameras = [],
      motionState = []\<rparr>"

fun sensitivityMap :: "sensitivity \<Rightarrow> rat" where
  "sensitivityMap low = 3 / 2"
| "sensitivityMap medium = 1"
| "sensitivityMap high = 3 / 5"

definition attachCamera :: "string \<Rightarrow> string option \<Rightarrow> MotionDetector \<Rightarrow> MotionDetector" where
  "attachCamera cameraId url md =
     (case map_of (cameras md) cameraId of
        Some c \<Rightarrow> md
      | None \<Rightarrow>
          md\<lparr>cameras := AList.update cameraId
                        \<lparr>cam_id = cameraId, cam_rtspUrl = url, cam_enabled = True,
                         lastFrameTime = None\<rparr> (cameras md),
             motionState := AList.update cameraId
                        \<lparr>isMotionActive = False, motionStartTime = None,
                         lastMotionLevel = 0, consecutiveFrames = 0\<rparr> (motionState md)\<rparr>)"

definition detachCamera :: "string \<Rightarrow> MotionDetector \<Rightarrow> MotionDetector" where
  "detachCamera cameraId md =
     md\<lparr>cameras := AList.delete cameraId (cameras md),
        motionState := AList.delete cameraId (motionState md)\<rparr>"

definition setEnabled :: "string \<Rightarrow> bool \<Rightarrow> MotionDetector \<Rightarrow> MotionDetector" where
  "setEnabled cameraId en md =
     (case map_of (cameras md) cameraId of
        Some c \<Rightarrow> md\<lparr>cameras := AList.update cameraId (c\<lparr>cam_enabled := en\<rparr>) (cameras md)\<rparr>
      | None \<Rightarrow> md)"

definition validateMotion :: "motion_config \<Rightarrow> frame_data \<Rightarrow> bool" where
  "validateMotion cfg d =
     (let adjustedThreshold = threshold cfg * sensitivityMap (sensitivityLevel cfg) in
      if motionLevel d < adjustedThreshold then False
      else if pixelChangePercent d < minPixelChangePercent cfg then False
      else if ignoreShadows cfg \<and> hasShadow d then False
      else if ignoreLightingChanges cfg \<and> hasLightingChange d then False
      else True)"

text \<open>
  The body of \<open>_processMotion\<close> on the camera's state object. \<open>now\<close> is \<open>Date.now()\<close>.
  A null \<open>motionStartTime\<close> would count as 0 in the subtraction; it is always set by
  then.
\<close>

definition motion_frame ::
  "motion_config \<Rightarrow> rat \<Rightarrow> int \<Rightarrow> motion_state \<Rightarrow> motion_state \<times> motion_event list" where
  "motion_frame cfg level now st =
     (let st1 = st\<lparr>lastMotionLevel := level, consecutiveFrames := consecutiveFrames st + 1\<rparr>;
          st2 = (if \<not> isMotionActive st1
                 then st1\<lparr>motionStartTime := Some now, isMotionActive := True\<rparr>
                 else st1);
          duration = now - (case motionStartTime st2 of Some t \<Rightarrow> t | None \<Rightarrow> 0)
      in if duration \<ge> minDurationMs cfg \<and> consecutiveFrames st2 \<ge> 3
         then (st2\<lparr>motionStartTime := Some now, consecutiveFrames := 0\<rparr>,
               [\<lparr>ev_type = MOTION_START, ev_timestamp = now, ev_duration = Some duration,
                 ev_level = Some level\<rparr>])
         else (st2, []))"

definition still_frame :: "int \<Rightarrow> motion_state \<Rightarrow> motion_state \<times> motion_event list" where
  "still_frame now st =
     (if isMotionActive st
      then (st\<lparr>isMotionActive := False, consecutiveFrames := 0\<rparr>,
            [\<lparr>ev_type = MOTION_END, ev_timestamp = now, ev_duration = None, ev_level = None\<rparr>])
      else (st, []))"

text \<open>
  \<open>_processMotion\<close> and \<open>_processNoMotion\<close> read \<open>motionState.get(cameraId)\<close> and use
  it at once; for a camera without a state that is a TypeError, the result \<open>None\<close>.
  The second component of a result is the list of \<open>motion\<close> events emitted.
\<close>

definition processMotion ::
  "string \<Rightarrow> rat \<Rightarrow> int \<Rightarrow> MotionDetector \<Rightarrow> (MotionDetector \<times> motion_event list) option" where
  "processMotion cameraId level now md =
     (case map_of (motionState md) cameraId of
        None \<Rightarrow> None
      | Some st \<Rightarrow>
          let r = motion_frame (md_config md) level now st
          in Some (md\<lparr>motionState := AList.update cameraId (fst r) (motionState md)\<rparr>, snd r))"

definition processNoMotion ::
  "string \<Rightarrow> int \<Rightarrow> MotionDetector \<Rightarrow> (MotionDetector \<times> motion_event list) option" where
  "processNoMotion cameraId now md =
     (case map_of (motionState md) cameraId of
        None \<Rightarrow> None
      | Some st \<Rightarrow>
          let r = still_frame now st
          in Some (md\<lparr>motionState := AList.update cameraId (fst r) (motionState md)\<rparr>, snd r))"

definition processFrame ::
  "string \<Rightarrow> frame_data \<Rightarrow> int \<Rightarrow> MotionDetector \<Rightarrow> (MotionDetector \<times> motion_event list) option" where
  "processFrame cameraId frameData now md =
     (case map_of (cameras md) cameraId of
        None \<Rightarrow> Some (md, [])
      | Some c \<Rightarrow>
          if \<not> cam_enabled c then Some (md, [])
          else if validateMotion (md_config md) frameData
          then processMotion cameraId (motionLevel frameData) now md
          else processNoMotion cameraId now md)"

definition onCameraMotionEvent ::
  "string \<Rightarrow> rat \<Rightarrow> int \<Rightarrow> MotionDetector \<Rightarrow> (MotionDetector \<times> motion_event list) option" where
  "onCameraMotionEvent cameraId level now md =
     (case map_of (cameras md) cameraId of
        None \<Rightarrow> Some (md, [])
      | Some c \<Rightarrow>
          if \<not> cam_enabled c then Some (md, [])
          else processMotion cameraId level now md)"

definition simulateMotion ::
  "string \<Rightarrow> rat \<Rightarrow> int \<Rightarrow> MotionDetector \<Rightarrow> (MotionDetector \<times> motion_event list) option" where
  "simulateMotion cameraId level now md =
     processFrame cameraId
       \<lparr>pixelChangePercent = 10, motionLevel = level, hasShadow = False,
        hasLightingChange = False\<rparr> now md"

text \<open>Feeding one camera a sequence of frames, each with the clock reading at its arrival.\<close>

fun feed ::
  "string \<Rightarrow> (int \<times> frame_data) list \<Rightarrow> MotionDetector
   \<Rightarrow> (MotionDetector \<times> motion_event list) option" where
  "feed cameraId [] md = Some (md, [])"
| "feed cameraId (tf # rest) md =
     (case processFrame cameraId (snd tf) (fst tf) md of
        None \<Rightarrow> None
      | Some r1 \<Rightarrow>
          (case feed cameraId rest (fst r1) of
             None \<Rightarrow> None
           | Some r2 \<Rightarrow> Some (fst r2, snd r1 @ snd r2)))"

definition confirmed :: "motion_event list \<Rightarrow> motion_event list" where
  "confirmed evs = filter (\<lambda>e. ev_type e = MOTION_START) evs"

section \<open>Edge server wiring (the server entry point)\<close>





section \<open>Properties of the alarm controller\<close>

definition default_alarm_options :: alarm_options where
  "default_alarm_options =
     \<lparr>opt_durationSeconds = None, opt_enabled = None, opt_volumeLevel = None\<rparr>"




definition alarm_inv :: "timers \<times> AlarmController \<Rightarrow> bool" where
  "alarm_inv tc = (state (snd tc) = TRIGGERED \<longrightarrow> any_active (snd tc))"

lemma any_active_simps [simp]:
  "any_active (emit_alarm e ac) = any_active ac"
  "any_active (activateHardwareAlarm ac) = any_active ac"
  "any_active (deactivateHardwareAlarm ac) = any_active ac"
  by (auto simp: any_active_def emit_alarm_def activateHardwareAlarm_def
        deactivateHardwareAlarm_def split: option.splits)

lemma state_simps [simp]:
  "state (emit_alarm e ac) = state ac"
  "state (activateHardwareAlarm ac) = state ac"
  "state (deactivateHardwareAlarm ac) = state ac"
  by (auto simp: emit_alarm_def activateHardwareAlarm_def deactivateHardwareAlarm_def
        split: option.splits)

lemma any_active_update:
  "isActive a \<Longrightarrow> any_active (ac\<lparr>cameraAlarms := AList.update k a (cameraAlarms ac)\<rparr>)"
  unfolding any_active_def list_ex_iff
  using map_of_SomeD[of "AList.update k a (cameraAlarms ac)" k a]
  by (force simp: update_conv')

lemma alarm_step_inv: "alarm_inv tc \<Longrightarrow> alarm_inv (alarm_step op tc)"
proof (cases op)
  case (Trigger cam now)
  assume "alarm_inv tc"
  then show ?thesis using Trigger
    by (auto simp: alarm_inv_def trigger_def Let_def
          any_active_update[where ac="ac\<lparr>state := TRIGGERED\<rparr>" for ac, simplified])
next
  case (Stop c)
  then show ?thesis by (auto simp: alarm_inv_def stop_def Let_def split: option.splits)
next
  case Arm
  then show ?thesis by (simp add: alarm_inv_def arm_def)
next
  case Disarm
  then show ?thesis by (simp add: alarm_inv_def disarm_def Let_def)
next
  case (Fire tid)
  assume "alarm_inv tc"
  then show ?thesis using Fire
    by (auto simp: alarm_inv_def alarm_fire_def onAlarmTimeout_def onCooldownEnd_def
          enterCooldown_def Let_def split: option.splits callback.splits)
qed

lemma alarm_run_inv: "alarm_inv tc \<Longrightarrow> alarm_inv (alarm_run ops tc)"
  unfolding alarm_run_def
  by (induction ops arbitrary: tc) (simp_all add: alarm_step_inv)

text \<open>
  C3, as the spec states it, fails: \<open>arm()\<close> sets the mode to ARMED whatever the
  per-camera entries say, so arming while CAM1's alarm is sounding leaves an active entry
  under mode ARMED.
\<close>

theorem alarm_mode_iff_active_counterexample:
  "state (snd (alarm_run [Trigger ''CAM1'' 5, Arm]
                 ([], AlarmController_new default_alarm_options))) = ARMED \<and>
   any_active (snd (alarm_run [Trigger ''CAM1'' 5, Arm]
                 ([], AlarmController_new default_alarm_options)))"
  by (simp add: alarm_run_def trigger_def arm_def Let_def AlarmController_new_def
        default_alarm_options_def camera_active_def any_active_def emit_alarm_def
        activateHardwareAlarm_def)

text \<open>
  C3, amended: in every state reachable from a freshly constructed controller (mode
  ARMED, no entries, no timers) by any sequence of trigger, stop (with or without a camera
  id), arm, disarm and timer firings, mode TRIGGERED implies that at least one per-camera
  entry is active.
\<close>

theorem alarm_triggered_implies_active:
  "state (snd (alarm_run ops ([], AlarmController_new c))) = TRIGGERED \<longrightarrow>
   any_active (snd (alarm_run ops ([], AlarmController_new c)))"
proof -
  have "alarm_inv ([], AlarmController_new c)"
    by (simp add: alarm_inv_def AlarmController_new_def)
  then have "alarm_inv (alarm_run ops ([], AlarmController_new c))"
    by (rule alarm_run_inv)
  then show ?thesis by (simp add: alarm_inv_def)
qed

theorem alarm_triggered_implies_active_witness:
  "state (snd (alarm_run [Trigger ''CAM1'' 5, Trigger ''CAM2'' 6, Fire ''alarm_CAM1'']
                 ([], AlarmController_new default_alarm_options))) = TRIGGERED \<and>
   any_active (snd (alarm_run [Trigger ''CAM1'' 5, Trigger ''CAM2'' 6, Fire ''alarm_CAM1'']
                 ([], AlarmController_new default_alarm_options)))"
proof -
  have t: "state (snd (alarm_run [Trigger ''CAM1'' 5, Trigger ''CAM2'' 6, Fire ''alarm_CAM1'']
                 ([], AlarmController_new default_alarm_options))) = TRIGGERED"
    by (simp add: alarm_run_def trigger_def Let_def AlarmController_new_def
          default_alarm_options_def camera_active_def any_active_def emit_alarm_def
          activateHardwareAlarm_def alarm_fire_def Timer_start_def Timer_stop_def
          onAlarmTimeout_def mark_inactive_def)
  with alarm_triggered_implies_active
         [of "[Trigger ''CAM1'' 5, Trigger ''CAM2'' 6, Fire ''alarm_CAM1'']"
             default_alarm_options]
  show ?thesis by simp
qed

section \<open>Properties of the storage manager\<close>

declare updateStorageStats.simps [simp del] performCleanup.simps [simp del] cleanupLoop.simps [simp del]

definition oldest_first :: "(recording_entry \<times> recording_entry list) list \<Rightarrow> bool" where
  "oldest_first J = list_all (\<lambda>p. list_all (\<lambda>r. timestamp (fst p) \<le> timestamp r) (snd p)) J"

definition consistent :: "StorageManager \<Rightarrow> bool" where
  "consistent sm = (stats sm = measure_stats sm)"

definition keeps :: "StorageManager \<Rightarrow> StorageManager \<Rightarrow> bool" where
  "keeps a b =
     ((\<exists>P. recordings b = filter P (recordings a)) \<and>
      (\<exists>J. splice_log b = splice_log a @ J \<and> oldest_first J \<and>
           length (recordings b) + length J = length (recordings a) \<and>
           set (recordings a) = set (recordings b) \<union> fst ` set J) \<and>
      sm_config b = sm_config a \<and> basePath b = basePath a \<and>
      unlink_denied (disk b) = unlink_denied (disk a))"

lemma keepsI:
  "recordings b = filter P (recordings a) \<Longrightarrow> splice_log b = splice_log a @ J \<Longrightarrow>
   oldest_first J \<Longrightarrow> length (recordings b) + length J = length (recordings a) \<Longrightarrow>
   set (recordings a) = set (recordings b) \<union> fst ` set J \<Longrightarrow>
   sm_config b = sm_config a \<Longrightarrow> basePath b = basePath a \<Longrightarrow>
   unlink_denied (disk b) = unlink_denied (disk a) \<Longrightarrow> keeps a b"
  unfolding keeps_def by blast

lemma keeps_same:
  "recordings b = recordings a \<Longrightarrow> splice_log b = splice_log a \<Longrightarrow> sm_config b = sm_config a \<Longrightarrow>
   basePath b = basePath a \<Longrightarrow> unlink_denied (disk b) = unlink_denied (disk a) \<Longrightarrow> keeps a b"
  by (rule keepsI[where P="\<lambda>x. True" and J="[]"]) (simp_all add: oldest_first_def)

lemma keeps_trans: "keeps a b \<Longrightarrow> keeps b c \<Longrightarrow> keeps a c"
proof -
  assume ab: "keeps a b" and bc: "keeps b c"
  from ab obtain P J where 1: "recordings b = filter P (recordings a)"
     "splice_log b = splice_log a @ J" "oldest_first J"
     "length (recordings b) + length J = length (recordings a)"
     "set (recordings a) = set (recordings b) \<union> fst ` set J"
    unfolding keeps_def by blast
  from bc obtain P' J' where 2: "recordings c = filter P' (recordings b)"
     "splice_log c = splice_log b @ J'" "oldest_first J'"
     "length (recordings c) + length J' = length (recordings b)"
     "set (recordings b) = set (recordings c) \<union> fst ` set J'"
    unfolding keeps_def by blast
  from ab have 3: "sm_config b = sm_config a" "basePath b = basePath a"
     "unlink_denied (disk b) = unlink_denied (disk a)"
    unfolding keeps_def by simp_all
  from bc have 4: "sm_config c = sm_config b" "basePath c = basePath b"
     "unlink_denied (disk c) = unlink_denied (disk b)"
    unfolding keeps_def by simp_all
  show ?thesis
  proof (rule keepsI[where P="\<lambda>x. P x \<and> P' x" and J="J @ J'"])
    show "recordings c = filter (\<lambda>x. P x \<and> P' x) (recordings a)"
      using 1(1) 2(1) by simp
    show "splice_log c = splice_log a @ J @ J'" using 1(2) 2(2) by simp
    show "oldest_first (J @ J')" using 1(3) 2(3) by (simp add: oldest_first_def)
    show "length (recordings c) + length (J @ J') = length (recordings a)"
      using 1(4) 2(4) by simp
    have "set (recordings a) = (set (recordings c) \<union> fst ` set J') \<union> fst ` set J"
      unfolding 1(5) 2(5) ..
    also have "\<dots> = set (recordings c) \<union> fst ` set (J @ J')"
      by (simp add: image_Un Un_ac)
    finally show "set (recordings a) = set (recordings c) \<union> fst ` set (J @ J')" .
  qed (simp_all add: 3 4)
qed

lemma stat_or_zero_frame [simp]:
  "stat_or_zero (emit_storage e sm) = stat_or_zero sm"
  "stat_or_zero (sm\<lparr>stats := x\<rparr>) = stat_or_zero sm"
  by (rule ext, simp add: emit_storage_def stat_or_zero_def)+

lemma measure_stats_frame [simp]:
  "measure_stats (emit_storage e sm) = measure_stats sm"
  "measure_stats (sm\<lparr>stats := x\<rparr>) = measure_stats sm"
  by (simp_all add: measure_stats_def)

lemma emit_storage_fields [simp]:
  "stats (emit_storage e sm) = stats sm"
  "splice_log (emit_storage e sm) = splice_log sm"
  "sm_config (emit_storage e sm) = sm_config sm"
  "basePath (emit_storage e sm) = basePath sm"
  "disk (emit_storage e sm) = disk sm"
  by (simp_all add: emit_storage_def)

lemma keeps_emit: "keeps a b \<Longrightarrow> keeps a (emit_storage e b)"
  by (simp add: keeps_def)

lemma consistent_emit [simp]: "consistent (emit_storage e sm) = consistent sm"
  by (simp add: consistent_def)

lemma distinct_map_sort_key:
  "distinct (map f (sort_key k xs)) = distinct (map f xs)"
  by (simp add: distinct_map)

lemma deleteRecording_noindex_ok:
  assumes "unlink_denied (disk sm) = []"
  shows "\<exists>d. deleteRecording_noindex f sm =
           (Inr (), emit_storage (recordingDeleted f) (splice_first f (sm\<lparr>disk := d\<rparr>))) \<and>
         unlink_denied d = []"
proof (cases "map_of (files (disk sm)) (path_join (basePath sm) f)")
  case None
  then have "deleteRecording_noindex f sm =
      (Inr (), emit_storage (recordingDeleted f) (splice_first f (sm\<lparr>disk := disk sm\<rparr>)))"
    using assms by (simp add: deleteRecording_noindex_def unlink_and_splice_def fs_unlink_def)
  then show ?thesis using assms by blast
next
  case (Some n)
  let ?d = "(disk sm)\<lparr>files := AList.delete (path_join (basePath sm) f) (files (disk sm)),
                       fs_log := fs_log (disk sm) @ [Unlink (path_join (basePath sm) f)]\<rparr>"
  have "deleteRecording_noindex f sm =
      (Inr (), emit_storage (recordingDeleted f) (splice_first f (sm\<lparr>disk := ?d\<rparr>)))"
    using Some assms by (simp add: deleteRecording_noindex_def unlink_and_splice_def fs_unlink_def)
  moreover have "unlink_denied ?d = []" using assms by simp
  ultimately show ?thesis by blast
qed

lemma splice_first_head:
  assumes d: "distinct (map filename (e # rest))"
    and s: "sorted (map timestamp (e # rest))"
    and sub: "set (recordings sm) \<subseteq> set (e # rest)"
    and dr: "distinct (map filename (recordings sm))"
  shows "recordings (splice_first (filename e) sm) = filter (\<lambda>r. r \<noteq> e) (recordings sm)"
    and "\<exists>J. splice_log (splice_first (filename e) sm) = splice_log sm @ J \<and> oldest_first J \<and>
           length (recordings (splice_first (filename e) sm)) + length J = length (recordings sm) \<and>
           set (recordings sm) = set (recordings (splice_first (filename e) sm)) \<union> fst ` set J"
    and "set (recordings (splice_first (filename e) sm)) \<subseteq> set rest"
proof -
  have uniq: "\<And>r. r \<in> set (recordings sm) \<Longrightarrow> filename r = filename e \<Longrightarrow> r = e"
  proof -
    fix r assume "r \<in> set (recordings sm)" "filename r = filename e"
    then have "r \<in> set (e # rest)" using sub by blast
    moreover have "inj_on filename (set (e # rest))" using d by (simp only: distinct_map)
    moreover have "e \<in> set (e # rest)" by simp
    ultimately show "r = e" using \<open>filename r = filename e\<close> by (rule_tac inj_onD)
  qed
  have dl: "distinct (recordings sm)" using dr by (simp add: distinct_map)
  have old: "\<And>r. r \<in> set (recordings sm) \<Longrightarrow> timestamp e \<le> timestamp r"
    using s sub by auto
  show 1: "recordings (splice_first (filename e) sm) = filter (\<lambda>r. r \<noteq> e) (recordings sm)"
  proof (cases "find (\<lambda>r. filename r = filename e) (recordings sm)")
    case None
    then have "e \<notin> set (recordings sm)" by (auto simp: find_None_iff)
    then have "filter (\<lambda>r. r \<noteq> e) (recordings sm) = recordings sm"
      by (simp add: filter_id_conv) blast
    then show ?thesis using None by (simp add: splice_first_def)
  next
    case (Some r)
    then have "r \<in> set (recordings sm)" "filename r = filename e"
      by (auto simp: find_Some_iff)
    then have "r = e" using uniq by blast
    then show ?thesis using Some dl
      by (simp add: splice_first_def distinct_remove1_removeAll removeAll_filter_not_eq) metis
  qed
  show "\<exists>J. splice_log (splice_first (filename e) sm) = splice_log sm @ J \<and> oldest_first J \<and>
           length (recordings (splice_first (filename e) sm)) + length J = length (recordings sm) \<and>
           set (recordings sm) = set (recordings (splice_first (filename e) sm)) \<union> fst ` set J"
  proof (cases "find (\<lambda>r. filename r = filename e) (recordings sm)")
    case None
    then show ?thesis by (simp add: splice_first_def oldest_first_def)
  next
    case (Some r)
    then have rin: "r \<in> set (recordings sm)" and "filename r = filename e"
      by (auto simp: find_Some_iff)
    then have re: "r = e" using uniq by blast
    have len: "length (remove1 e (recordings sm)) + 1 = length (recordings sm)"
      using rin re length_pos_if_in_set[of e "recordings sm"] by (simp add: length_remove1)
    have st: "set (recordings sm) = set (remove1 e (recordings sm)) \<union> {e}"
      using rin re dl by auto
    have "splice_first (filename e) sm =
            sm\<lparr>recordings := remove1 e (recordings sm),
               splice_log := splice_log sm @ [(e, recordings sm)]\<rparr>"
      using Some re by (simp add: splice_first_def)
    moreover have "oldest_first [(e, recordings sm)]"
      using old by (simp add: oldest_first_def list_all_iff)
    ultimately show ?thesis using len st
      by (intro exI[of _ "[(e, recordings sm)]"]) simp
  qed
  show "set (recordings (splice_first (filename e) sm)) \<subseteq> set rest"
    using 1 sub by auto
qed


lemma keeps_filter: "keeps a b \<Longrightarrow> \<exists>P. recordings b = filter P (recordings a)"
  unfolding keeps_def by simp

lemma keeps_subset: "keeps a b \<Longrightarrow> set (recordings b) \<subseteq> set (recordings a)"
proof -
  assume "keeps a b"
  then obtain P where "recordings b = filter P (recordings a)" using keeps_filter by blast
  then show ?thesis by simp
qed

lemma keeps_distinct:
  "keeps a b \<Longrightarrow> distinct (map filename (recordings a)) \<Longrightarrow> distinct (map filename (recordings b))"
proof -
  assume "keeps a b" and d: "distinct (map filename (recordings a))"
  then obtain P where "recordings b = filter P (recordings a)" using keeps_filter by blast
  then show ?thesis using d by (simp add: distinct_map_filter)
qed

lemma keeps_denied: "keeps a b \<Longrightarrow> unlink_denied (disk b) = unlink_denied (disk a)"
  unfolding keeps_def by simp

lemma keeps_config: "keeps a b \<Longrightarrow> sm_config b = sm_config a"
  unfolding keeps_def by simp

lemma splice_first_fields [simp]:
  "sm_config (splice_first f sm) = sm_config sm"
  "basePath (splice_first f sm) = basePath sm"
  "disk (splice_first f sm) = disk sm"
  "stats (splice_first f sm) = stats sm"
  by (simp_all add: splice_first_def split: option.splits)

lemma splice_first_disk:
  "recordings (splice_first f (sm\<lparr>disk := d\<rparr>)) = recordings (splice_first f sm)"
  "splice_log (splice_first f (sm\<lparr>disk := d\<rparr>)) = splice_log (splice_first f sm)"
  by (simp_all add: splice_first_def split: option.splits)

lemma keeps_journal:
  assumes "keeps a b"
  shows "take (length (splice_log a)) (splice_log b) = splice_log a"
    and "oldest_first (drop (length (splice_log a)) (splice_log b))"
    and "length (recordings b) + length (drop (length (splice_log a)) (splice_log b))
           = length (recordings a)"
    and "set (recordings a) =
           set (recordings b) \<union> fst ` set (drop (length (splice_log a)) (splice_log b))"
proof -
  from assms obtain J where j: "splice_log b = splice_log a @ J" "oldest_first J"
     "length (recordings b) + length J = length (recordings a)"
     "set (recordings a) = set (recordings b) \<union> fst ` set J"
    unfolding keeps_def by blast
  have dj: "drop (length (splice_log a)) (splice_log b) = J" using j(1) by simp
  show "take (length (splice_log a)) (splice_log b) = splice_log a" using j(1) by simp
  show "oldest_first (drop (length (splice_log a)) (splice_log b))" using j(2) dj by simp
  show "length (recordings b) + length (drop (length (splice_log a)) (splice_log b))
           = length (recordings a)" using j(3) dj by simp
  show "set (recordings a) =
           set (recordings b) \<union> fst ` set (drop (length (splice_log a)) (splice_log b))"
    using j(4) dj by simp
qed

lemma cleanup_correct:
  shows "distinct (map filename (recordings sm)) \<and> unlink_denied (disk sm) = [] \<longrightarrow>
           keeps sm (updateStorageStats sm) \<and> consistent (updateStorageStats sm) \<and>
           (autoCleanup (sm_config sm) \<and>
            maxUsagePercent (sm_config sm) \<le> usagePercent (measure_stats sm) \<longrightarrow>
              usagePercent (stats (updateStorageStats sm)) \<le> maxUsagePercent (sm_config sm) - 10 \<or>
              recordings (updateStorageStats sm) = [])"
    and "distinct (map filename (recordings sm')) \<and> unlink_denied (disk sm') = [] \<and> consistent sm' \<longrightarrow>
           keeps sm' (performCleanup sm') \<and> consistent (performCleanup sm') \<and>
           (usagePercent (stats (performCleanup sm')) \<le> maxUsagePercent (sm_config sm') - 10 \<or>
            recordings (performCleanup sm') = [])"
    and "distinct (map filename srt) \<and> sorted (map timestamp srt) \<and>
         set (recordings sm'') \<subseteq> set srt \<and> distinct (map filename (recordings sm'')) \<and>
         unlink_denied (disk sm'') = [] \<and> consistent sm'' \<longrightarrow>
           keeps sm'' (fst (cleanupLoop t srt n sm'')) \<and>
           consistent (fst (cleanupLoop t srt n sm'')) \<and>
           (usagePercent (stats (fst (cleanupLoop t srt n sm''))) \<le> t \<or>
            recordings (fst (cleanupLoop t srt n sm'')) = [])"
proof (induct sm and sm' and t srt n sm'' rule: updateStorageStats_performCleanup_cleanupLoop.induct)
  case (1 sm)
  let ?sm1 = "sm\<lparr>stats := measure_stats sm\<rparr>"
  show ?case
  proof (intro impI, elim conjE)
    assume d: "distinct (map filename (recordings sm))" and u: "unlink_denied (disk sm) = []"
    have k1: "keeps sm ?sm1" by (rule keeps_same) simp_all
    have c1: "consistent ?sm1" by (simp add: consistent_def)
    show "keeps sm (updateStorageStats sm) \<and> consistent (updateStorageStats sm) \<and>
           (autoCleanup (sm_config sm) \<and>
            maxUsagePercent (sm_config sm) \<le> usagePercent (measure_stats sm) \<longrightarrow>
              usagePercent (stats (updateStorageStats sm)) \<le> maxUsagePercent (sm_config sm) - 10 \<or>
              recordings (updateStorageStats sm) = [])"
    proof (cases "autoCleanup (sm_config sm) \<and>
            maxUsagePercent (sm_config sm) \<le> usagePercent (measure_stats sm)")
      case True
      have ih: "keeps ?sm1 (performCleanup ?sm1) \<and> consistent (performCleanup ?sm1) \<and>
           (usagePercent (stats (performCleanup ?sm1)) \<le> maxUsagePercent (sm_config ?sm1) - 10 \<or>
            recordings (performCleanup ?sm1) = [])"
        using "1"[OF refl refl] True d u c1 by simp
      have "keeps sm (performCleanup ?sm1)" using k1 ih keeps_trans by blast
      then show ?thesis using ih True
        by (subst (1 2 3 4) updateStorageStats.simps) (simp add: Let_def keeps_emit)
    next
      case False
      then show ?thesis using k1 c1
        by (subst (1 2 3 4) updateStorageStats.simps) (auto simp: Let_def keeps_emit)
    qed
  qed
next
  case (2 sm)
  let ?srt = "sort_key timestamp (recordings sm)"
  let ?t = "maxUsagePercent (sm_config sm) - 10"
  show ?case
  proof (intro impI, elim conjE)
    assume d: "distinct (map filename (recordings sm))" and u: "unlink_denied (disk sm) = []"
      and c: "consistent sm"
    have "keeps sm (fst (cleanupLoop ?t ?srt 0 sm)) \<and>
           consistent (fst (cleanupLoop ?t ?srt 0 sm)) \<and>
           (usagePercent (stats (fst (cleanupLoop ?t ?srt 0 sm))) \<le> ?t \<or>
            recordings (fst (cleanupLoop ?t ?srt 0 sm)) = [])"
      using "2"[OF refl refl] d u c by (simp add: distinct_map_sort_key)
    then show "keeps sm (performCleanup sm) \<and> consistent (performCleanup sm) \<and>
           (usagePercent (stats (performCleanup sm)) \<le> maxUsagePercent (sm_config sm) - 10 \<or>
            recordings (performCleanup sm) = [])"
      by (simp add: performCleanup.simps Let_def keeps_emit)
  qed
next
  case (3 targetUsage deletedCount sm)
  show ?case
    by (auto simp: cleanupLoop.simps intro: keeps_same)
next
  case (4 targetUsage oldest rest deletedCount sm)
  show ?case
  proof (intro impI, elim conjE)
    assume d: "distinct (map filename (oldest # rest))"
      and s: "sorted (map timestamp (oldest # rest))"
      and sub: "set (recordings sm) \<subseteq> set (oldest # rest)"
      and dr: "distinct (map filename (recordings sm))"
      and u: "unlink_denied (disk sm) = []"
      and c: "consistent sm"
    let ?res = "fst (cleanupLoop targetUsage (oldest # rest) deletedCount sm)"
    show "keeps sm ?res \<and> consistent ?res \<and>
          (usagePercent (stats ?res) \<le> targetUsage \<or> recordings ?res = [])"
    proof (cases "targetUsage < usagePercent (stats sm)")
      case False
      then show ?thesis using c
        by (auto simp: cleanupLoop.simps intro: keeps_same)
    next
      case True
      obtain dk where del: "deleteRecording_noindex (filename oldest) sm =
           (Inr (), emit_storage (recordingDeleted (filename oldest))
                      (splice_first (filename oldest) (sm\<lparr>disk := dk\<rparr>)))"
         and udk: "unlink_denied dk = []"
        using deleteRecording_noindex_ok[OF u] by blast
      let ?y = "emit_storage (recordingDeleted (filename oldest))
                      (splice_first (filename oldest) (sm\<lparr>disk := dk\<rparr>))"
      have r1: "recordings ?y = filter (\<lambda>r. r \<noteq> oldest) (recordings sm)"
        using splice_first_head(1)[OF d s sub dr] by (simp add: splice_first_disk)
      have j1: "\<exists>J. splice_log ?y = splice_log sm @ J \<and> oldest_first J \<and>
           length (recordings ?y) + length J = length (recordings sm) \<and>
           set (recordings sm) = set (recordings ?y) \<union> fst ` set J"
        using splice_first_head(2)[OF d s sub dr] by (simp add: splice_first_disk)
      have s1: "set (recordings ?y) \<subseteq> set rest"
        using splice_first_head(3)[OF d s sub dr] by (simp add: splice_first_disk)
      obtain J1 where j1': "splice_log ?y = splice_log sm @ J1" "oldest_first J1"
           "length (recordings ?y) + length J1 = length (recordings sm)"
           "set (recordings sm) = set (recordings ?y) \<union> fst ` set J1"
        using j1 by blast
      have ky: "keeps sm ?y"
        by (rule keepsI[OF r1 j1']) (simp_all add: u udk)
      have dy: "distinct (map filename (recordings ?y))"
        using ky dr by (rule keeps_distinct)
      have uy: "unlink_denied (disk ?y) = []" using udk by simp
      have ihP: "keeps ?y (updateStorageStats ?y) \<and> consistent (updateStorageStats ?y)"
        using "4.hyps"(2)[OF True del[symmetric] refl] dy uy by simp
      let ?z = "updateStorageStats ?y"
      have kz: "keeps sm ?z" using ky ihP keeps_trans by blast
      have pre: "distinct (map filename rest) \<and> sorted (map timestamp rest) \<and>
         set (recordings ?z) \<subseteq> set rest \<and> distinct (map filename (recordings ?z)) \<and>
         unlink_denied (disk ?z) = [] \<and> consistent ?z"
        using d s s1 ihP keeps_subset[of ?y ?z] keeps_distinct[OF _ dy, of ?z]
              keeps_denied[of ?y ?z] uy
        by auto
      let ?w = "fst (cleanupLoop targetUsage rest (deletedCount + 1) ?z)"
      have ihR: "keeps ?z ?w \<and> consistent ?w \<and>
           (usagePercent (stats ?w) \<le> targetUsage \<or> recordings ?w = [])"
        using "4.hyps"(3)[OF True del[symmetric] refl] pre by blast
      have eq: "?res = ?w"
        using True del by (simp add: cleanupLoop.simps)
      show ?thesis unfolding eq using ihR kz keeps_trans by blast
    qed
  qed
qed


subsection \<open>Unfolding the eviction loop one step at a time\<close>

lemma updateStorageStats_quiet:
  "\<not> (autoCleanup (sm_config sm) \<and>
      maxUsagePercent (sm_config sm) \<le> usagePercent (measure_stats sm)) \<Longrightarrow>
   updateStorageStats sm =
     (let sm1 = sm\<lparr>stats := measure_stats sm\<rparr> in
      if health (measure_stats sm) = WARNING
      then emit_storage (storageWarning (usagePercent (measure_stats sm))) sm1
      else if health (measure_stats sm) = CRITICAL
      then emit_storage (storageCritical (usagePercent (measure_stats sm))) sm1
      else sm1)"
  by (subst updateStorageStats.simps) (auto simp: Let_def)

lemma updateStorageStats_cleanup:
  "autoCleanup (sm_config sm) \<Longrightarrow>
   maxUsagePercent (sm_config sm) \<le> usagePercent (measure_stats sm) \<Longrightarrow>
   updateStorageStats sm =
     (let sm2 = performCleanup (sm\<lparr>stats := measure_stats sm\<rparr>) in
      if health (stats sm2) = WARNING
      then emit_storage (storageWarning (usagePercent (measure_stats sm))) sm2
      else if health (stats sm2) = CRITICAL
      then emit_storage (storageCritical (usagePercent (measure_stats sm))) sm2
      else sm2)"
  by (subst updateStorageStats.simps) (simp add: Let_def)

lemma cleanupLoop_stop:
  "\<not> t < usagePercent (stats sm) \<Longrightarrow> cleanupLoop t (e # r) n sm = (sm, n)"
  by (simp add: cleanupLoop.simps)

lemma cleanupLoop_deleted:
  "t < usagePercent (stats sm) \<Longrightarrow>
   deleteRecording_noindex (filename e) sm = (Inr u, sm1) \<Longrightarrow>
   cleanupLoop t (e # r) n sm = cleanupLoop t r (n + 1) (updateStorageStats sm1)"
  by (simp add: cleanupLoop.simps)

lemma cleanupLoop_failed:
  "t < usagePercent (stats sm) \<Longrightarrow>
   deleteRecording_noindex (filename e) sm = (Inl err, sm1) \<Longrightarrow>
   cleanupLoop t (e # r) n sm = cleanupLoop t r n sm1"
  by (simp add: cleanupLoop.simps)


subsection \<open>Example states\<close>

text \<open>
  Two directories of a 32 GB card at 93 percent: in \<open>full_storage\<close> every file can be
  deleted; in \<open>locked_storage\<close> the oldest file cannot (its \<open>unlink\<close> fails with
  EACCES). \<open>full_storage_evicted\<close> and \<open>locked_storage_evicted\<close> are the states that
  \<open>refresh()\<close> leaves behind.
\<close>

definition cam1_rec :: recording_entry where
  "cam1_rec = \<lparr>rec_id = ''rec_1'', rec_cameraId = ''CAM1'', filename = ''CAM1_2026-01-04_14-32-10.mp4'',
         timestamp = 1000, duration = Some 60, sizeBytes = 20000000000, downloaded = False\<rparr>"

definition cam2_rec :: recording_entry where
  "cam2_rec = \<lparr>rec_id = ''rec_2'', rec_cameraId = ''CAM2'', filename = ''CAM2_2026-01-04_14-40-00.mp4'',
         timestamp = 2000, duration = Some 60, sizeBytes = 12000000000, downloaded = False\<rparr>"

definition full_storage :: StorageManager where
  "full_storage =
     \<lparr>sm_config = \<lparr>cfg_basePath = ''/rec'', maxUsagePercent = 90, autoCleanup = True,
                    indexFile = ''index.json''\<rparr>,
      basePath = ''/rec'', indexPath = ''/rec/index.json'',
      recordings = [cam1_rec, cam2_rec],
      stats = \<lparr>totalBytes = 0, usedBytes = 0, freeBytes = 0, usagePercent = 0, health = HEALTHY\<rparr>,
      disk = \<lparr>files = [(''/rec/CAM1_2026-01-04_14-32-10.mp4'', 20000000000),
                       (''/rec/CAM2_2026-01-04_14-40-00.mp4'', 12000000000)],
               index_file = Some [cam1_rec, cam2_rec], unlink_denied = [], write_denied = False,
               fs_log = []\<rparr>,
      splice_log = [], sm_emitted = []\<rparr>"

definition full_storage_evicted :: StorageManager where
  "full_storage_evicted =
     full_storage
       \<lparr>recordings := [cam2_rec],
        stats := \<lparr>totalBytes = 34359738368, usedBytes = 12000000000, freeBytes = 22359738368,
                   usagePercent = 12000000000 / 34359738368 * 100, health = HEALTHY\<rparr>,
        disk := (disk full_storage)
                  \<lparr>files := [(''/rec/CAM2_2026-01-04_14-40-00.mp4'', 12000000000)],
                   fs_log := [Unlink ''/rec/CAM1_2026-01-04_14-32-10.mp4'']\<rparr>,
        splice_log := [(cam1_rec, [cam1_rec, cam2_rec])],
        sm_emitted := [recordingDeleted ''CAM1_2026-01-04_14-32-10.mp4'', cleanupComplete 1]\<rparr>"

lemmas fixture_defs = cam1_rec_def cam2_rec_def full_storage_def
lemmas stats_defs = measure_stats_def stat_or_zero_def fs_stat_def path_join_def Let_def calculateHealth_def
lemmas delete_defs = deleteRecording_noindex_def unlink_and_splice_def fs_unlink_def
       splice_first_def emit_storage_def path_join_def

definition big_rec :: recording_entry where
  "big_rec = \<lparr>rec_id = ''rec_1'', rec_cameraId = ''CAM1'', filename = ''CAM1_2026-01-04_14-32-10.mp4'',
         timestamp = 1000, duration = Some 60, sizeBytes = 30000000000, downloaded = False\<rparr>"

definition small_rec :: recording_entry where
  "small_rec = \<lparr>rec_id = ''rec_2'', rec_cameraId = ''CAM2'', filename = ''CAM2_2026-01-04_14-40-00.mp4'',
         timestamp = 2000, duration = Some 60, sizeBytes = 2000000000, downloaded = False\<rparr>"

definition locked_storage :: StorageManager where
  "locked_storage =
     \<lparr>sm_config = \<lparr>cfg_basePath = ''/rec'', maxUsagePercent = 90, autoCleanup = True,
                    indexFile = ''index.json''\<rparr>,
      basePath = ''/rec'', indexPath = ''/rec/index.json'',
      recordings = [big_rec, small_rec],
      stats = \<lparr>totalBytes = 0, usedBytes = 0, freeBytes = 0, usagePercent = 0, health = HEALTHY\<rparr>,
      disk = \<lparr>files = [(''/rec/CAM1_2026-01-04_14-32-10.mp4'', 30000000000),
                       (''/rec/CAM2_2026-01-04_14-40-00.mp4'', 2000000000)],
               index_file = Some [big_rec, small_rec],
               unlink_denied = [''/rec/CAM1_2026-01-04_14-32-10.mp4''],
               write_denied = False, fs_log = []\<rparr>,
      splice_log = [], sm_emitted = []\<rparr>"

definition locked_storage_evicted :: StorageManager where
  "locked_storage_evicted =
     locked_storage
       \<lparr>recordings := [big_rec],
        stats := \<lparr>totalBytes = 34359738368, usedBytes = 30000000000, freeBytes = 4359738368,
                   usagePercent = 30000000000 / 34359738368 * 100, health = WARNING\<rparr>,
        disk := (disk locked_storage)
                  \<lparr>files := [(''/rec/CAM1_2026-01-04_14-32-10.mp4'', 30000000000)],
                   fs_log := [Unlink ''/rec/CAM2_2026-01-04_14-40-00.mp4'']\<rparr>,
        splice_log := [(small_rec, [big_rec, small_rec])],
        sm_emitted := [recordingDeleted ''CAM2_2026-01-04_14-40-00.mp4'',
                       storageWarning (30000000000 / 34359738368 * 100),
                       cleanupComplete 1,
                       storageWarning (32000000000 / 34359738368 * 100)]\<rparr>"

lemmas locked_defs = big_rec_def small_rec_def locked_storage_def

lemma refresh_full_storage: "refresh full_storage = full_storage_evicted"
proof -
  define s0 where "s0 = full_storage\<lparr>stats := measure_stats full_storage\<rparr>"
  define s1 where "s1 = full_storage
       \<lparr>recordings := [cam2_rec],
        stats := measure_stats full_storage,
        disk := (disk full_storage)
                  \<lparr>files := [(''/rec/CAM2_2026-01-04_14-40-00.mp4'', 12000000000)],
                   fs_log := [Unlink ''/rec/CAM1_2026-01-04_14-32-10.mp4'']\<rparr>,
        splice_log := [(cam1_rec, [cam1_rec, cam2_rec])],
        sm_emitted := [recordingDeleted ''CAM1_2026-01-04_14-32-10.mp4'']\<rparr>"
  define s2 where "s2 = s1\<lparr>stats := measure_stats s1\<rparr>"
  have u0: "usagePercent (measure_stats full_storage) = 32000000000 / 34359738368 * 100"
    by (simp add: fixture_defs stats_defs)
  have trig: "autoCleanup (sm_config full_storage)"
      "maxUsagePercent (sm_config full_storage) \<le> usagePercent (measure_stats full_storage)"
    by (simp_all add: u0) (simp_all add: full_storage_def)
  have srt: "sort_key timestamp (recordings s0) = [cam1_rec, cam2_rec]"
    by (simp add: s0_def fixture_defs)
  have tgt: "maxUsagePercent (sm_config s0) - 10 = 80" by (simp add: s0_def full_storage_def)
  have c0: "(80::rat) < usagePercent (stats s0)" by (simp add: s0_def u0)
  have del: "deleteRecording_noindex (filename cam1_rec) s0 = (Inr (), s1)"
    by (simp add: s0_def s1_def fixture_defs delete_defs)
  have m1: "measure_stats s1 = \<lparr>totalBytes = 34359738368, usedBytes = 12000000000,
                   freeBytes = 22359738368,
                   usagePercent = 12000000000 / 34359738368 * 100, health = HEALTHY\<rparr>"
    by (simp add: s1_def fixture_defs stats_defs)
  have q1: "\<not> (autoCleanup (sm_config s1) \<and>
      maxUsagePercent (sm_config s1) \<le> usagePercent (measure_stats s1))"
    by (simp add: m1) (simp add: s1_def full_storage_def)
  have up1: "updateStorageStats s1 = s2"
    by (simp add: updateStorageStats_quiet[OF q1] s2_def m1)
  have c2: "\<not> (80::rat) < usagePercent (stats s2)" by (simp add: s2_def m1)
  have "cleanupLoop 80 [cam1_rec, cam2_rec] 0 s0 = cleanupLoop 80 [cam2_rec] 1 s2"
    using cleanupLoop_deleted[OF c0 del, of "[cam2_rec]" 0] by (simp add: up1)
  also have "\<dots> = (s2, 1)" by (rule cleanupLoop_stop[OF c2])
  finally have loop: "cleanupLoop 80 [cam1_rec, cam2_rec] 0 s0 = (s2, 1)" .
  have pc: "performCleanup s0 = emit_storage (cleanupComplete 1) s2"
    by (simp add: performCleanup.simps srt tgt loop)
  have h2: "health (stats (emit_storage (cleanupComplete 1) s2)) = HEALTHY"
    by (simp add: s2_def m1)
  have "updateStorageStats full_storage = emit_storage (cleanupComplete 1) s2"
    using updateStorageStats_cleanup[OF trig] pc h2 by (simp add: s0_def Let_def)
  also have "\<dots> = full_storage_evicted"
    unfolding s2_def m1 by (simp add: full_storage_evicted_def emit_storage_def s1_def)
  finally show ?thesis by (simp add: refresh_def)
qed


lemma refresh_locked_storage: "refresh locked_storage = locked_storage_evicted"
proof -
  define s0 where "s0 = locked_storage\<lparr>stats := measure_stats locked_storage\<rparr>"
  define s1 where "s1 = locked_storage
       \<lparr>recordings := [big_rec],
        stats := measure_stats locked_storage,
        disk := (disk locked_storage)
                  \<lparr>files := [(''/rec/CAM1_2026-01-04_14-32-10.mp4'', 30000000000)],
                   fs_log := [Unlink ''/rec/CAM2_2026-01-04_14-40-00.mp4'']\<rparr>,
        splice_log := [(small_rec, [big_rec, small_rec])],
        sm_emitted := [recordingDeleted ''CAM2_2026-01-04_14-40-00.mp4'']\<rparr>"
  define m1 where "m1 = \<lparr>totalBytes = 34359738368, usedBytes = 30000000000,
                   freeBytes = 4359738368,
                   usagePercent = 30000000000 / 34359738368 * 100, health = WARNING\<rparr>"
  define s2 where "s2 = emit_storage (storageWarning (30000000000 / 34359738368 * 100))
                          (s1\<lparr>stats := m1\<rparr>)"
  have u0: "usagePercent (measure_stats locked_storage) = 32000000000 / 34359738368 * 100"
    by (simp add: locked_defs stats_defs)
  have trig: "autoCleanup (sm_config locked_storage)"
      "maxUsagePercent (sm_config locked_storage) \<le> usagePercent (measure_stats locked_storage)"
    by (simp_all add: u0) (simp_all add: locked_storage_def)
  have srt: "sort_key timestamp (recordings s0) = [big_rec, small_rec]"
    by (simp add: s0_def locked_defs)
  have tgt: "maxUsagePercent (sm_config s0) - 10 = 80" by (simp add: s0_def locked_storage_def)
  have c0: "(80::rat) < usagePercent (stats s0)" by (simp add: s0_def u0)
  have del_big: "deleteRecording_noindex (filename big_rec) s0 = (Inl EACCES, s0)"
    by (simp add: s0_def locked_defs delete_defs)
  have del_small: "deleteRecording_noindex (filename small_rec) s0 = (Inr (), s1)"
    by (simp add: s0_def s1_def locked_defs delete_defs)
  have ms1: "measure_stats s1 = m1"
    by (simp add: s1_def m1_def locked_defs stats_defs)
  have q1: "\<not> (autoCleanup (sm_config s1) \<and>
      maxUsagePercent (sm_config s1) \<le> usagePercent (measure_stats s1))"
    by (simp add: ms1 m1_def) (simp add: s1_def locked_storage_def)
  have up1: "updateStorageStats s1 = s2"
    by (simp add: updateStorageStats_quiet[OF q1] ms1 s2_def m1_def)
  have "cleanupLoop 80 [big_rec, small_rec] 0 s0 = cleanupLoop 80 [small_rec] 0 s0"
    by (rule cleanupLoop_failed[OF c0 del_big])
  also have "\<dots> = cleanupLoop 80 [] 1 s2"
    using cleanupLoop_deleted[OF c0 del_small, of "[]" 0] by (simp add: up1)
  also have "\<dots> = (s2, 1)" by (simp add: cleanupLoop.simps)
  finally have loop: "cleanupLoop 80 [big_rec, small_rec] 0 s0 = (s2, 1)" .
  have pc: "performCleanup s0 = emit_storage (cleanupComplete 1) s2"
    by (simp add: performCleanup.simps srt tgt loop)
  have h2: "health (stats (emit_storage (cleanupComplete 1) s2)) = WARNING"
    by (simp add: s2_def m1_def)
  have "updateStorageStats locked_storage =
          emit_storage (storageWarning (32000000000 / 34359738368 * 100))
            (emit_storage (cleanupComplete 1) s2)"
    using updateStorageStats_cleanup[OF trig] pc h2 by (simp add: s0_def Let_def u0)
  also have "\<dots> = locked_storage_evicted"
    unfolding s2_def m1_def by (simp add: locked_storage_evicted_def emit_storage_def s1_def)
  finally show ?thesis by (simp add: refresh_def)
qed

subsection \<open>Eviction order and convergence\<close>

text \<open>
  C5, as the spec states it, fails: a deletion that throws is caught inside the eviction
  loop, logged, and the loop goes on to the next entry. With the oldest file undeletable,
  \<open>refresh()\<close> removes the newer recording while the strictly older one stays in the
  index, and stops with usage above ceiling minus 10 and one entry left.
\<close>

theorem eviction_skips_undeletable_counterexample:
  "recordings (refresh locked_storage) = [big_rec] \<and>
   splice_log (refresh locked_storage) = [(small_rec, [big_rec, small_rec])] \<and>
   timestamp big_rec < timestamp small_rec \<and>
   \<not> usagePercent (stats (refresh locked_storage))
       \<le> maxUsagePercent (sm_config locked_storage) - 10"
  by (simp add: refresh_locked_storage locked_storage_evicted_def)
     (simp add: locked_defs)

text \<open>
  C5, amended: when autoCleanup is on, no two index entries share a filename and no
  \<open>unlink\<close> is denied, then whenever the computed usage reaches the ceiling,
  \<open>refresh()\<close> (that is \<open>_updateStorageStats\<close>) only appends to the splice history;
  every entry it removes is no newer than any entry the index held at that moment; the
  removed entries are exactly the ones missing afterwards; the statistics are those of the
  final directory; and usage is at most ceiling minus 10 or the index is empty.
  Termination is the totality of the three functions, proved above.
\<close>

theorem eviction_oldest_first:
  assumes "autoCleanup (sm_config sm)"
    and "distinct (map filename (recordings sm))"
    and "unlink_denied (disk sm) = []"
    and "maxUsagePercent (sm_config sm) \<le> usagePercent (measure_stats sm)"
  shows "take (length (splice_log sm)) (splice_log (refresh sm)) = splice_log sm \<and>
         oldest_first (drop (length (splice_log sm)) (splice_log (refresh sm))) \<and>
         length (recordings (refresh sm)) +
           length (drop (length (splice_log sm)) (splice_log (refresh sm)))
             = length (recordings sm) \<and>
         set (recordings sm) =
           set (recordings (refresh sm)) \<union>
           fst ` set (drop (length (splice_log sm)) (splice_log (refresh sm))) \<and>
         stats (refresh sm) = measure_stats (refresh sm) \<and>
         (usagePercent (stats (refresh sm)) \<le> maxUsagePercent (sm_config sm) - 10 \<or>
          recordings (refresh sm) = [])"
proof -
  have k: "keeps sm (updateStorageStats sm)" and c: "consistent (updateStorageStats sm)"
    and t: "usagePercent (stats (updateStorageStats sm)) \<le> maxUsagePercent (sm_config sm) - 10 \<or>
              recordings (updateStorageStats sm) = []"
    using cleanup_correct(1)[of sm] assms by blast+
  show ?thesis
    using keeps_journal[OF k] c t by (simp add: refresh_def consistent_def)
qed


theorem eviction_oldest_first_witness:
  "autoCleanup (sm_config full_storage) \<and>
   distinct (map filename (recordings full_storage)) \<and>
   unlink_denied (disk full_storage) = [] \<and>
   maxUsagePercent (sm_config full_storage) \<le> usagePercent (measure_stats full_storage) \<and>
   oldest_first (splice_log (refresh full_storage)) \<and>
   usagePercent (stats (refresh full_storage)) \<le> 80"
proof -
  have h: "autoCleanup (sm_config full_storage)"
    "distinct (map filename (recordings full_storage))"
    "unlink_denied (disk full_storage) = []"
    "maxUsagePercent (sm_config full_storage) \<le> usagePercent (measure_stats full_storage)"
    by (simp_all add: fixture_defs stats_defs)
  have ne: "recordings (refresh full_storage) \<noteq> []"
    by (simp add: refresh_full_storage full_storage_evicted_def)
  have sl: "splice_log full_storage = []" "maxUsagePercent (sm_config full_storage) = 90"
    by (simp_all add: full_storage_def)
  note t = eviction_oldest_first[OF h, unfolded sl]
  have "oldest_first (splice_log (refresh full_storage))"
    using t[THEN conjunct2, THEN conjunct1] by simp
  moreover have "usagePercent (stats (refresh full_storage)) \<le> 90 - 10 \<or>
         recordings (refresh full_storage) = []"
    by (rule t[THEN conjunct2, THEN conjunct2, THEN conjunct2, THEN conjunct2, THEN conjunct2])
  ultimately have "oldest_first (splice_log (refresh full_storage))"
    and "usagePercent (stats (refresh full_storage)) \<le> 80" using ne by simp_all
  with h show ?thesis by blast
qed

subsection \<open>Index persistence\<close>







section \<open>Properties of the recording controller\<close>

lemma camera_ensure [simp]: "camera (ensure_camera c rc) c' = camera rc c'"
  by (auto simp: camera_def ensure_camera_def update_conv' new_camera_state_def split: option.splits)

lemma camera_set [simp]:
  "camera (set_camera c cs rc) c' = (if c' = c then cs else camera rc c')"
  by (simp add: camera_def set_camera_def update_conv')

lemma ensure_camera_known:
  "rec_state (camera rc c) \<noteq> IDLE \<Longrightarrow> ensure_camera c rc = rc"
  by (auto simp: camera_def ensure_camera_def new_camera_state_def split: option.splits)

lemma camera_frame [simp]:
  "camera (emit_recording e rc) c = camera rc c"
  "camera (startFFmpegRecording c' u p rc) c = camera rc c"
  "camera (stopFFmpegRecording c' rc) c = camera rc c"
  "camera (rc\<lparr>activeProcesses := ap\<rparr>) c = camera rc c"
  "camera (rc\<lparr>pendingSaves := ps\<rparr>) c = camera rc c"
  by (auto simp: camera_def emit_recording_def startFFmpegRecording_def stopFFmpegRecording_def
        Let_def split: option.splits process.splits)

text \<open>
  C1. For every camera id: when the camera's phase is IDLE, \<open>startRecording\<close> returns true
  and the phase becomes RECORDING, and a second call right after it returns false and
  changes neither the timers nor the controller; when the phase is not IDLE,
  \<open>startRecording\<close> returns false and returns the timers and the whole controller (phase,
  current file, start time, processes, pending saves, events) as they were.
\<close>

theorem startRecording_guard:
  "(rec_state (camera rc cam) = IDLE \<longrightarrow>
      fst (startRecording cam url now sm (ts, rc)) \<and>
      rec_state (camera (snd (snd (startRecording cam url now sm (ts, rc)))) cam) = RECORDING \<and>
      startRecording cam url' now' sm (snd (startRecording cam url now sm (ts, rc)))
        = (False, snd (startRecording cam url now sm (ts, rc)))) \<and>
   (rec_state (camera rc cam) \<noteq> IDLE \<longrightarrow>
      startRecording cam url now sm (ts, rc) = (False, ts, rc))"
proof (intro conjI impI)
  assume idle: "rec_state (camera rc cam) = IDLE"
  show "fst (startRecording cam url now sm (ts, rc))"
    using idle by (simp add: startRecording_def Let_def)
  show rec: "rec_state (camera (snd (snd (startRecording cam url now sm (ts, rc)))) cam) = RECORDING"
    using idle by (simp add: startRecording_def Let_def)
  obtain ts1 rc1 where s: "snd (startRecording cam url now sm (ts, rc)) = (ts1, rc1)"
    by (cases "snd (startRecording cam url now sm (ts, rc))")
  then have "rec_state (camera rc1 cam) \<noteq> IDLE" using rec by simp
  then show "startRecording cam url' now' sm (snd (startRecording cam url now sm (ts, rc)))
        = (False, snd (startRecording cam url now sm (ts, rc)))"
    unfolding s by (simp add: startRecording_def Let_def ensure_camera_known)
next
  assume "rec_state (camera rc cam) \<noteq> IDLE"
  then show "startRecording cam url now sm (ts, rc) = (False, ts, rc)"
    by (simp add: startRecording_def Let_def ensure_camera_known)
qed


subsection \<open>Phase transitions\<close>





lemma map_of_Timer_start':
  "map_of (Timer_start tid d cb ts) k =
     (if k = tid then Some \<lparr>durationMs = d, callback = cb\<rparr> else map_of ts k)"
  by (auto simp: Timer_start_def Timer_stop_def map_add_def delete_conv' split: option.splits)

lemma map_of_Timer_stop:
  "map_of (snd (Timer_stop tid ts)) k = (if k = tid then None else map_of ts k)"
  by (auto simp: Timer_stop_def delete_conv' split: option.splits)

lemma pending_frame [simp]:
  "pendingSaves (ensure_camera c rc) = pendingSaves rc"
  "pendingSaves (set_camera c cs rc) = pendingSaves rc"
  "pendingSaves (emit_recording e rc) = pendingSaves rc"
  "pendingSaves (startFFmpegRecording c u p rc) = pendingSaves rc"
  "pendingSaves (stopFFmpegRecording c rc) = pendingSaves rc"
  by (auto simp: ensure_camera_def set_camera_def emit_recording_def startFFmpegRecording_def
        stopFFmpegRecording_def Let_def split: option.splits process.splits)

lemma resetDelay_frame [simp]:
  "resetDelayMs (ensure_camera c rc) = resetDelayMs rc"
  "resetDelayMs (set_camera c cs rc) = resetDelayMs rc"
  "resetDelayMs (emit_recording e rc) = resetDelayMs rc"
  "resetDelayMs (startFFmpegRecording c u p rc) = resetDelayMs rc"
  "resetDelayMs (stopFFmpegRecording c rc) = resetDelayMs rc"
  "recordingDurationMs (ensure_camera c rc) = recordingDurationMs rc"
  "recordingDurationMs (set_camera c cs rc) = recordingDurationMs rc"
  "recordingDurationMs (emit_recording e rc) = recordingDurationMs rc"
  "recordingDurationMs (startFFmpegRecording c u p rc) = recordingDurationMs rc"
  "recordingDurationMs (stopFFmpegRecording c rc) = recordingDurationMs rc"
  by (auto simp: ensure_camera_def set_camera_def emit_recording_def startFFmpegRecording_def
        stopFFmpegRecording_def Let_def split: option.splits process.splits)

text \<open>What each operation does to the timers, the camera states and the pending saves.\<close>

definition started :: "string \<Rightarrow> string option \<Rightarrow> date \<Rightarrow> camera_state \<Rightarrow> camera_state" where
  "started cam url now cs =
     cs\<lparr>rec_state := RECORDING, startTime := Some now,
        currentFile := Some (generateVideoFilename cam now), rtspUrl := or_else url (rtspUrl cs)\<rparr>"

lemma startRecording_effect:
  "map_of (fst (snd (startRecording cam url now sm (ts, rc)))) k =
     (if rec_state (camera rc cam) = IDLE \<and> k = ''recording_'' @ cam
      then Some \<lparr>durationMs = recordingDurationMs rc, callback = OnTimerEnd cam\<rparr>
      else map_of ts k)"
  "camera (snd (snd (startRecording cam url now sm (ts, rc)))) c =
     (if rec_state (camera rc cam) = IDLE \<and> c = cam then started cam url now (camera rc cam)
      else camera rc c)"
  "pendingSaves (snd (snd (startRecording cam url now sm (ts, rc)))) = pendingSaves rc"
  by (auto simp: startRecording_def Let_def map_of_Timer_start' started_def)

lemma onReset_effect:
  "map_of (fst (onReset cam (ts, rc))) k =
     (if k = ''reset_'' @ cam
      then Some \<lparr>durationMs = resetDelayMs rc, callback = OnResetDone cam\<rparr>
      else map_of ts k)"
  "camera (snd (onReset cam (ts, rc))) c = camera rc c"
  "pendingSaves (snd (onReset cam (ts, rc))) = pendingSaves rc"
  by (auto simp: onReset_def Let_def map_of_Timer_start')

lemma onResetDone_effect:
  "camera (onResetDone cam rc) c =
     (if c = cam then (camera rc cam)\<lparr>rec_state := IDLE, currentFile := None, startTime := None\<rparr>
      else camera rc c)"
  "pendingSaves (onResetDone cam rc) = pendingSaves rc"
  by (auto simp: onResetDone_def Let_def)



lemma handleRecordingError_effect:
  "map_of (fst (handleRecordingError cam err (ts, rc))) k =
     (if k = ''reset_'' @ cam
      then Some \<lparr>durationMs = resetDelayMs rc, callback = OnResetDone cam\<rparr>
      else if k = ''recording_'' @ cam then None else map_of ts k)"
  "camera (snd (handleRecordingError cam err (ts, rc))) c =
     (if c = cam then (camera rc cam)\<lparr>rec_state := RESET\<rparr> else camera rc c)"
  "pendingSaves (snd (handleRecordingError cam err (ts, rc))) = pendingSaves rc"
  by (auto simp: handleRecordingError_def Let_def onReset_effect map_of_Timer_stop)

lemma forceStop_effect:
  "map_of (fst (forceStop cam (ts, rc))) k =
     (if k = ''reset_'' @ cam \<or> k = ''recording_'' @ cam then None else map_of ts k)"
  "camera (snd (forceStop cam (ts, rc))) c =
     (if c = cam then (camera rc cam)\<lparr>rec_state := IDLE, currentFile := None, startTime := None\<rparr>
      else camera rc c)"
  "pendingSaves (snd (forceStop cam (ts, rc))) = pendingSaves rc"
  by (auto simp: forceStop_def Let_def map_of_Timer_stop)







lemma rec_step_Start:
  "map_of (fst (rec_step (Start cam url now) (ts, rc, sm))) k =
     (if rec_state (camera rc cam) = IDLE \<and> k = ''recording_'' @ cam
      then Some \<lparr>durationMs = recordingDurationMs rc, callback = OnTimerEnd cam\<rparr>
      else map_of ts k)"
  "camera (fst (snd (rec_step (Start cam url now) (ts, rc, sm)))) c =
     (if rec_state (camera rc cam) = IDLE \<and> c = cam then started cam url now (camera rc cam)
      else camera rc c)"
  "pendingSaves (fst (snd (rec_step (Start cam url now) (ts, rc, sm)))) = pendingSaves rc"
  by (simp_all add: lift_rec_def Let_def startRecording_effect)

lemma rec_step_CaptureError:
  "map_of (fst (rec_step (CaptureError cam err) (ts, rc, sm))) k =
     (if k = ''reset_'' @ cam
      then Some \<lparr>durationMs = resetDelayMs rc, callback = OnResetDone cam\<rparr>
      else if k = ''recording_'' @ cam then None else map_of ts k)"
  "camera (fst (snd (rec_step (CaptureError cam err) (ts, rc, sm)))) c =
     (if c = cam then (camera rc cam)\<lparr>rec_state := RESET\<rparr> else camera rc c)"
  "pendingSaves (fst (snd (rec_step (CaptureError cam err) (ts, rc, sm)))) = pendingSaves rc"
  "snd (snd (rec_step (CaptureError cam err) (ts, rc, sm))) = sm"
  by (simp_all add: lift_rec_def Let_def handleRecordingError_effect)





lemma rec_step_FireTimer_reset:
  assumes "map_of ts tid = Some t" "callback t = OnResetDone cam"
  shows "map_of (fst (rec_step (FireTimer tid) (ts, rc, sm))) k =
     (if k = tid then None else map_of ts k)"
    and "camera (fst (snd (rec_step (FireTimer tid) (ts, rc, sm)))) c =
     (if c = cam then (camera rc cam)\<lparr>rec_state := IDLE, currentFile := None, startTime := None\<rparr>
      else camera rc c)"
    and "pendingSaves (fst (snd (rec_step (FireTimer tid) (ts, rc, sm)))) = pendingSaves rc"
  using assms by (simp_all add: lift_rec_def Let_def rec_fire_def onResetDone_effect delete_conv')









declare rec_step.simps [simp del]











definition default_recording_options :: recording_options where
  "default_recording_options = \<lparr>rc_durationSeconds = None, rc_resetDelaySeconds = None\<rparr>"

definition t_14_32_10 :: date where
  "t_14_32_10 = \<lparr>epochMs = 1767537130100, getFullYear = 2026, getMonth = 0, getDate = 4,
                  getHours = 14, getMinutes = 32, getSeconds = 10\<rparr>"

definition empty_storage :: StorageManager where
  "empty_storage =
     \<lparr>sm_config = \<lparr>cfg_basePath = ''/rec'', maxUsagePercent = 90, autoCleanup = True,
                    indexFile = ''index.json''\<rparr>,
      basePath = ''/rec'', indexPath = ''/rec/index.json'',
      recordings = [],
      stats = \<lparr>totalBytes = 0, usedBytes = 0, freeBytes = 0, usagePercent = 0, health = HEALTHY\<rparr>,
      disk = \<lparr>files = [], index_file = Some [], unlink_denied = [], write_denied = False,
               fs_log = []\<rparr>,
      splice_log = [], sm_emitted = []\<rparr>"

definition fresh_world :: rec_world where
  "fresh_world = ([], RecordingController_new default_recording_options, empty_storage)"

lemma phase_fresh: "phase fresh_world c = IDLE"
  by (simp add: fresh_world_def phase_def camera_def RecordingController_new_def new_camera_state_def)






subsection \<open>Capture errors\<close>

text \<open>
  C7. When the capture process of a camera in phase RECORDING reports an error, the error
  handler leaves no \<open>recording_<id>\<close> timer and no process entry for the camera, emits
  \<open>recordingError\<close>, puts the camera in RESET with the timer \<open>reset_<id>\<close> pending for
  the reset delay, and touches neither the storage manager nor the pending saves; when
  that timer fires the camera is IDLE, and storage and pending saves are still untouched.
\<close>

theorem capture_error_resets:
  assumes "phase (ts, rc, sm) cam = RECORDING"
  shows "map_of (fst (rec_step (CaptureError cam err) (ts, rc, sm))) (''recording_'' @ cam) = None \<and>
     map_of (activeProcesses (fst (snd (rec_step (CaptureError cam err) (ts, rc, sm))))) cam = None \<and>
     rc_emitted (fst (snd (rec_step (CaptureError cam err) (ts, rc, sm))))
       = rc_emitted rc @ [recordingError cam err] \<and>
     phase (rec_step (CaptureError cam err) (ts, rc, sm)) cam = RESET \<and>
     map_of (fst (rec_step (CaptureError cam err) (ts, rc, sm))) (''reset_'' @ cam)
       = Some \<lparr>durationMs = resetDelayMs rc, callback = OnResetDone cam\<rparr> \<and>
     snd (snd (rec_step (CaptureError cam err) (ts, rc, sm))) = sm \<and>
     pendingSaves (fst (snd (rec_step (CaptureError cam err) (ts, rc, sm)))) = pendingSaves rc \<and>
     phase (rec_step (FireTimer (''reset_'' @ cam)) (rec_step (CaptureError cam err) (ts, rc, sm))) cam
       = IDLE \<and>
     snd (snd (rec_step (FireTimer (''reset_'' @ cam))
                 (rec_step (CaptureError cam err) (ts, rc, sm)))) = sm \<and>
     pendingSaves (fst (snd (rec_step (FireTimer (''reset_'' @ cam))
                 (rec_step (CaptureError cam err) (ts, rc, sm))))) = pendingSaves rc"
proof -
  obtain ts1 rc1 sm1 where s1: "rec_step (CaptureError cam err) (ts, rc, sm) = (ts1, rc1, sm1)"
    by (cases "rec_step (CaptureError cam err) (ts, rc, sm)") auto
  have t_rec: "map_of ts1 (''recording_'' @ cam) = None"
    using rec_step_CaptureError(1)[of cam err ts rc sm "''recording_'' @ cam"] s1 by simp
  have t_res: "map_of ts1 (''reset_'' @ cam)
       = Some \<lparr>durationMs = resetDelayMs rc, callback = OnResetDone cam\<rparr>"
    using rec_step_CaptureError(1)[of cam err ts rc sm "''reset_'' @ cam"] s1 by simp
  have c1: "rec_state (camera rc1 cam) = RESET"
    using rec_step_CaptureError(2)[of cam err ts rc sm cam] s1 by simp
  have pd: "pendingSaves rc1 = pendingSaves rc"
    using rec_step_CaptureError(3)[of cam err ts rc sm] s1 by simp
  have sm1: "sm1 = sm" using rec_step_CaptureError(4)[of cam err ts rc sm] s1 by simp
  have ap: "map_of (activeProcesses rc1) cam = None"
    using s1 by (auto simp: rec_step.simps lift_rec_def Let_def handleRecordingError_def onReset_def
          emit_recording_def set_camera_def ensure_camera_def delete_conv' split: option.splits)
  have em: "rc_emitted rc1 = rc_emitted rc @ [recordingError cam err]"
    using s1 by (auto simp: rec_step.simps lift_rec_def Let_def handleRecordingError_def onReset_def
          emit_recording_def set_camera_def ensure_camera_def split: option.splits)
  have cb: "callback \<lparr>durationMs = resetDelayMs rc, callback = OnResetDone cam\<rparr> = OnResetDone cam"
    by simp
  have p2: "phase (rec_step (FireTimer (''reset_'' @ cam)) (ts1, rc1, sm1)) cam = IDLE"
    using rec_step_FireTimer_reset(2)[OF t_res cb, of rc1 sm1 cam] by (simp add: phase_def)
  have pd2: "pendingSaves (fst (snd (rec_step (FireTimer (''reset_'' @ cam)) (ts1, rc1, sm1))))
               = pendingSaves rc"
    using rec_step_FireTimer_reset(3)[OF t_res cb, of rc1 sm1] pd by simp
  have sm2: "snd (snd (rec_step (FireTimer (''reset_'' @ cam)) (ts1, rc1, sm1))) = sm"
    using sm1 by (simp add: rec_step.simps lift_rec_def Let_def)
  show ?thesis unfolding s1
    using t_rec t_res c1 pd sm1 ap em p2 pd2 sm2 by (simp add: phase_def)
qed


subsection \<open>File names\<close>

lemma filename_14_32_10:
  "generateVideoFilename ''CAM1'' t_14_32_10 = ''CAM1_2026-01-04_14-32-10.mp4''"
  by (simp add: generateVideoFilename_def t_14_32_10_def pad_def padStart_def string_of_nat.simps)

definition t_14_32_10_later :: date where
  "t_14_32_10_later = t_14_32_10\<lparr>epochMs := 1767537130900\<rparr>"

lemma filename_ignores_millis:
  "generateVideoFilename c (d\<lparr>epochMs := ms\<rparr>) = generateVideoFilename c d"
  by (simp add: generateVideoFilename_def)

text \<open>
  C9 does not hold of the code. CAM1 starts recording at 14:32:10.100, is force-stopped,
  and starts again at 14:32:10.900: both calls of \<open>startRecording\<close> succeed, and both
  cycles get the output name \<open>CAM1_2026-01-04_14-32-10.mp4\<close>.
\<close>

theorem same_second_filenames_collide:
  "fst (startRecording ''CAM1'' None t_14_32_10 empty_storage
          ([], RecordingController_new default_recording_options)) \<and>
   currentFile (camera (snd (snd (startRecording ''CAM1'' None t_14_32_10 empty_storage
          ([], RecordingController_new default_recording_options)))) ''CAM1'')
     = Some ''CAM1_2026-01-04_14-32-10.mp4'' \<and>
   fst (startRecording ''CAM1'' None t_14_32_10_later empty_storage
          (forceStop ''CAM1'' (snd (startRecording ''CAM1'' None t_14_32_10 empty_storage
             ([], RecordingController_new default_recording_options))))) \<and>
   currentFile (camera (snd (snd (startRecording ''CAM1'' None t_14_32_10_later empty_storage
          (forceStop ''CAM1'' (snd (startRecording ''CAM1'' None t_14_32_10 empty_storage
             ([], RecordingController_new default_recording_options))))))) ''CAM1'')
     = Some ''CAM1_2026-01-04_14-32-10.mp4'' \<and>
   epochMs t_14_32_10 \<noteq> epochMs t_14_32_10_later"
proof -
  let ?rc0 = "RecordingController_new default_recording_options"
  let ?r1 = "startRecording ''CAM1'' None t_14_32_10 empty_storage ([], ?rc0)"
  have idle0: "rec_state (camera ?rc0 ''CAM1'') = IDLE"
    by (simp add: camera_def RecordingController_new_def new_camera_state_def)
  have a: "fst ?r1" using idle0 by (simp add: startRecording_def Let_def)
  have b: "currentFile (camera (snd (snd ?r1)) ''CAM1'') = Some ''CAM1_2026-01-04_14-32-10.mp4''"
    using idle0 by (simp add: startRecording_effect started_def filename_14_32_10)
  obtain ts2 rc2 where f: "forceStop ''CAM1'' (snd ?r1) = (ts2, rc2)"
    by (cases "forceStop ''CAM1'' (snd ?r1)")
  have idle2: "rec_state (camera rc2 ''CAM1'') = IDLE"
    using forceStop_effect(2)[of "''CAM1''" "fst (snd ?r1)" "snd (snd ?r1)" "''CAM1''"] f
    by simp
  have c: "fst (startRecording ''CAM1'' None t_14_32_10_later empty_storage (ts2, rc2))"
    using idle2 by (simp add: startRecording_def Let_def)
  have d: "currentFile (camera (snd (snd (startRecording ''CAM1'' None t_14_32_10_later
             empty_storage (ts2, rc2)))) ''CAM1'') = Some ''CAM1_2026-01-04_14-32-10.mp4''"
    using idle2
    by (simp add: startRecording_effect started_def t_14_32_10_later_def filename_ignores_millis
          filename_14_32_10)
  have e: "epochMs t_14_32_10 \<noteq> epochMs t_14_32_10_later"
    by (simp add: t_14_32_10_def t_14_32_10_later_def)
  show ?thesis unfolding f using a b c d e by simp
qed

theorem startRecording_guard_witness:
  "fst (startRecording ''CAM1'' None t_14_32_10 empty_storage
          ([], RecordingController_new default_recording_options)) \<and>
   \<not> fst (startRecording ''CAM1'' None t_14_32_10_later empty_storage
          (snd (startRecording ''CAM1'' None t_14_32_10 empty_storage
             ([], RecordingController_new default_recording_options)))) \<and>
   snd (startRecording ''CAM1'' None t_14_32_10_later empty_storage
          (snd (startRecording ''CAM1'' None t_14_32_10 empty_storage
             ([], RecordingController_new default_recording_options))))
     = snd (startRecording ''CAM1'' None t_14_32_10 empty_storage
             ([], RecordingController_new default_recording_options))"
proof -
  let ?rc0 = "RecordingController_new default_recording_options"
  have idle0: "rec_state (camera ?rc0 ''CAM1'') = IDLE"
    by (simp add: camera_def RecordingController_new_def new_camera_state_def)
  from startRecording_guard[of ?rc0 "''CAM1''" None t_14_32_10 empty_storage "[]"
         None t_14_32_10_later] idle0
  show ?thesis by simp
qed

definition recording_world :: rec_world where
  "recording_world = rec_step (Start ''CAM1'' (Some ''rtsp://10.0.0.7/stream'') t_14_32_10) fresh_world"

theorem capture_error_resets_witness:
  "phase recording_world ''CAM1'' = RECORDING \<and>
   phase (rec_step (CaptureError ''CAM1'' ''ffmpeg exited with code 1'') recording_world) ''CAM1''
     = RESET \<and>
   phase (rec_step (FireTimer ''reset_CAM1'')
           (rec_step (CaptureError ''CAM1'' ''ffmpeg exited with code 1'') recording_world)) ''CAM1''
     = IDLE \<and>
   recordings (snd (snd (rec_step (FireTimer ''reset_CAM1'')
           (rec_step (CaptureError ''CAM1'' ''ffmpeg exited with code 1'') recording_world)))) = []"
proof -
  obtain ts rc sm where w: "recording_world = (ts, rc, sm)" by (cases recording_world) auto
  have sm: "sm = empty_storage"
    using w by (simp add: recording_world_def fresh_world_def rec_step.simps lift_rec_def Let_def)
  have p: "phase (ts, rc, sm) ''CAM1'' = RECORDING"
    using w rec_step_Start(2)[of "''CAM1''" "Some ''rtsp://10.0.0.7/stream''" t_14_32_10 "[]"
              "RecordingController_new default_recording_options" empty_storage "''CAM1''"]
          phase_fresh[of "''CAM1''"]
    by (simp add: recording_world_def phase_def fresh_world_def started_def)
  from capture_error_resets[OF p, of "''ffmpeg exited with code 1''"] p sm
  show ?thesis unfolding w by (simp add: empty_storage_def)
qed

section \<open>Debounce of the motion detector\<close>









lemma confirmed_append [simp]: "confirmed (a @ b) = confirmed a @ confirmed b"
  by (simp add: confirmed_def)

lemma still_frame_confirmed [simp]: "confirmed (snd (still_frame now st)) = []"
  by (simp add: still_frame_def confirmed_def)







definition moving :: frame_data where
  "moving = \<lparr>pixelChangePercent = 10, motionLevel = 50, hasShadow = False,
             hasLightingChange = False\<rparr>"



definition default_motion_options :: motion_options where
  "default_motion_options =
     \<lparr>opt_threshold = None, opt_minDurationMs = None, opt_minPixelChangePercent = None,
      opt_ignoreShadows = None, opt_ignoreLightingChanges = None, opt_sensitivityLevel = None\<rparr>"


section \<open>The motion listener\<close>







definition open_episode :: motion_state where
  "open_episode = \<lparr>isMotionActive = True, motionStartTime = Some 1000, lastMotionLevel = 50,
                   consecutiveFrames = 1\<rparr>"

definition watching_detector :: MotionDetector where
  "watching_detector =
     (attachCamera ''CAM1'' None (MotionDetector_new default_motion_options))
       \<lparr>motionState := [(''CAM1'', open_episode)]\<rparr>"

lemma watching_detector_reached:
  "feed ''CAM1'' [(1000, moving)]
     (attachCamera ''CAM1'' None (MotionDetector_new default_motion_options))
   = Some (watching_detector, [])"
  by (simp add: watching_detector_def open_episode_def attachCamera_def MotionDetector_new_def
        default_motion_options_def or_default_def or_default_rat_def processFrame_def
        processMotion_def motion_frame_def validateMotion_def moving_def Let_def)



end
